theory Spec2Isabelle
  imports Complex_Main "HOL-Library.Word" "HOL-Library.Monad_Syntax" "HOL-Library.Sublist"
begin

unbundle bit_operations_syntax

section \<open>JavaScript values and strings\<close>

text \<open>
  Strings are byte lists: a JavaScript string is held as its UTF-8 encoding. Every string
  operation the sources apply (\<open>startsWith\<close>, \<open>includes\<close>, \<open>split\<close>, \<open>slice(1)\<close> after a
  test for a leading ASCII character) takes an ASCII pattern, and an ASCII pattern matches
  the same places in the UTF-8 bytes as in the UTF-16 code units.

  A JavaScript number is an IEEE double: a rational, or one of the two infinities
  (\<open>JSON.parse\<close> yields no NaN). Negative zero is not told apart from zero: it compares
  equal to it and prints the same.
\<close>

datatype jsnumber = Finite rat | PosInfinity | NegInfinity

datatype jsval =
    JUndefined
  | JNull
  | JBool bool
  | JNumber jsnumber
  | JString string
  | JArray "jsval list"
  | JObject "(string \<times> jsval) list"

text \<open>
  \<open>JObject\<close> lists the own properties of an object in the order \<open>Object.entries\<close>
  enumerates them. \<open>JUndefined\<close> is what reading an absent property gives.
\<close>

definition startsWith :: "string \<Rightarrow> string \<Rightarrow> bool" where
  "startsWith s p = (take (length p) s = p)"

fun includesStr :: "string \<Rightarrow> string \<Rightarrow> bool" where
  "includesStr [] sub = (sub = [])"
| "includesStr (c # cs) sub = (startsWith (c # cs) sub \<or> includesStr cs sub)"

text \<open>\<open>s.split(d)\<close> for a one-character separator.\<close>

fun splitOn :: "char \<Rightarrow> string \<Rightarrow> string list" where
  "splitOn d [] = [[]]"
| "splitOn d (c # cs) =
     (if c = d then [] # splitOn d cs
      else (case splitOn d cs of [] \<Rightarrow> [[c]] | w # ws \<Rightarrow> (c # w) # ws))"

text \<open>\<open>s.slice(1)\<close>.\<close>

definition slice1 :: "string \<Rightarrow> string" where
  "slice1 s = drop 1 s"

definition dq :: string where
  "dq = [CHR 0x22]"

definition digitChar :: "nat \<Rightarrow> char" where
  "digitChar n = ''0123456789'' ! n"

text \<open>The decimal text of an array index, as a template literal prints it.\<close>

fun showNat :: "nat \<Rightarrow> string" where
  "showNat n = (if n < 10 then [digitChar n] else showNat (n div 10) @ [digitChar (n mod 10)])"

declare showNat.simps [simp del]

text \<open>Truthiness, \<open>typeof\<close> and \<open>Array.isArray\<close>.\<close>

fun truthy :: "jsval \<Rightarrow> bool" where
  "truthy JUndefined = False"
| "truthy JNull = False"
| "truthy (JBool b) = b"
| "truthy (JNumber n) = (n \<noteq> Finite 0)"
| "truthy (JString s) = (s \<noteq> [])"
| "truthy (JArray xs) = True"
| "truthy (JObject kvs) = True"

fun typeof :: "jsval \<Rightarrow> string" where
  "typeof JUndefined = ''undefined''"
| "typeof JNull = ''object''"
| "typeof (JBool b) = ''boolean''"
| "typeof (JNumber n) = ''number''"
| "typeof (JString s) = ''string''"
| "typeof (JArray xs) = ''object''"
| "typeof (JObject kvs) = ''object''"

fun isArray :: "jsval \<Rightarrow> bool" where
  "isArray (JArray xs) = True"
| "isArray _ = False"

text \<open>
  Reading a property, \<open>v.k\<close> or \<open>v[k]\<close>. On \<open>null\<close> and \<open>undefined\<close> the read throws a
  TypeError (\<open>None\<close>). On an object it gives the own property or \<open>undefined\<close>; on an
  array or a primitive it gives \<open>undefined\<close>, which is right for every property name the
  validator reads: none of them is an index, \<open>length\<close> or a name on a built-in prototype.
\<close>

fun getProp :: "jsval \<Rightarrow> string \<Rightarrow> jsval option" where
  "getProp JUndefined k = None"
| "getProp JNull k = None"
| "getProp (JObject kvs) k = Some (case map_of kvs k of None \<Rightarrow> JUndefined | Some v \<Rightarrow> v)"
| "getProp v k = Some JUndefined"

text \<open>
  The operator \<open>k in v\<close>: a TypeError (\<open>None\<close>) on a primitive; on an array false for the
  names the validator asks about.
\<close>

fun hasProp :: "string \<Rightarrow> jsval \<Rightarrow> bool option" where
  "hasProp k (JObject kvs) = Some (map_of kvs k \<noteq> None)"
| "hasProp k (JArray xs) = Some False"
| "hasProp k v = None"

text \<open>\<open>Object.entries\<close> of an object or an array (an array's keys are its indices).\<close>

fun objectEntries :: "jsval \<Rightarrow> (string \<times> jsval) list" where
  "objectEntries (JObject kvs) = kvs"
| "objectEntries (JArray xs) = zip (map showNat [0..<length xs]) xs"
| "objectEntries v = []"

text \<open>
  \<open>xs.forEach((item, index) => ...)\<close> over a state that each call may update; a call that
  throws ends the loop. The index of the first item is passed in.
\<close>

fun forEachFrom :: "('a \<Rightarrow> nat \<Rightarrow> 's \<Rightarrow> 's option) \<Rightarrow> 'a list \<Rightarrow> nat \<Rightarrow> 's \<Rightarrow> 's option" where
  "forEachFrom f [] i s = Some s"
| "forEachFrom f (x # xs) i s =
     (case f x i s of None \<Rightarrow> None | Some s' \<Rightarrow> forEachFrom f xs (Suc i) s')"

definition forEach :: "('a \<Rightarrow> nat \<Rightarrow> 's \<Rightarrow> 's option) \<Rightarrow> 'a list \<Rightarrow> 's \<Rightarrow> 's option" where
  "forEach f xs s = forEachFrom f xs 0 s"

section \<open>The transaction validator (validateTransaction.ts)\<close>

datatype severity = SevError | SevWarning

record ValidationIssue =
  severity :: severity
  message :: string
  path :: "string option"

record ValidateTransactionResult =
  valid :: bool
  issues :: "ValidationIssue list"

definition issue :: "severity \<Rightarrow> string \<Rightarrow> string option \<Rightarrow> ValidationIssue" where
  "issue sev msg p = \<lparr>severity = sev, message = msg, path = p\<rparr>"

definition RESERVED_LIST_IDS :: "string list" where
  "RESERVED_LIST_IDS = [''All'', ''Mint'', ''Total'', ''!Mint'']"

definition isValidListId :: "string \<Rightarrow> bool" where
  "isValidListId id' =
     (if id' \<in> set RESERVED_LIST_IDS then True
      else if startsWith id' ''!'' \<and> slice1 id' \<in> set RESERVED_LIST_IDS then True
      else if startsWith id' ''bb1'' then True
      else if startsWith id' ''!bb1'' then True
      else if includesStr id' '':'' \<and> \<not> startsWith id' ''!'' then
        list_all (\<lambda>part. startsWith part ''bb1'') (splitOn CHR '':'' id')
      else if startsWith id' ''!'' \<and> includesStr id' '':'' then
        list_all (\<lambda>part. startsWith part ''bb1'') (splitOn CHR '':'' (slice1 id'))
      else if startsWith id' ''!Mint:bb1'' then True
      else False)"


text \<open>
  The two recursive walks, \<open>checkNumbersAreStrings\<close> and \<open>findAndValidateUintRanges\<close>, are
  called after the \<open>try\<close> block of \<open>handleValidateTransaction\<close>, and every nested call takes
  a frame of the call stack. A call made when the stack is used up throws a RangeError, which
  nothing catches. The parameter \<open>room\<close> is the number of nested calls of a walk that the
  stack still has room for; the result \<open>None\<close> is the uncaught exception.

  \<open>checkNumbersAreStrings\<close>: the recursive walk that records every number. The printing
  of a number in the message (\<open>${obj}\<close>) is the platform's; it is the parameter \<open>numToString\<close>.
\<close>

fun checkNumbersAreStrings ::
      "nat \<Rightarrow> (jsnumber \<Rightarrow> string) \<Rightarrow> jsval \<Rightarrow> string \<Rightarrow> ValidationIssue list \<Rightarrow> ValidationIssue list option"
  and checkNumbersItems ::
      "nat \<Rightarrow> (jsnumber \<Rightarrow> string) \<Rightarrow> jsval list \<Rightarrow> string \<Rightarrow> nat \<Rightarrow> ValidationIssue list \<Rightarrow> ValidationIssue list option"
  and checkNumbersEntries ::
      "nat \<Rightarrow> (jsnumber \<Rightarrow> string) \<Rightarrow> (string \<times> jsval) list \<Rightarrow> string \<Rightarrow> ValidationIssue list \<Rightarrow> ValidationIssue list option"
where
  "checkNumbersAreStrings 0 numToString obj p iss = None"
| "checkNumbersAreStrings (Suc room) numToString JNull p iss = Some iss"
| "checkNumbersAreStrings (Suc room) numToString JUndefined p iss = Some iss"
| "checkNumbersAreStrings (Suc room) numToString (JNumber n) p iss =
     Some (iss @ [issue SevError
       (''Number value found where string expected. Use '' @ dq @ numToString n @ dq
          @ '' instead of '' @ numToString n)
       (Some p)])"
| "checkNumbersAreStrings (Suc room) numToString (JArray xs) p iss =
     checkNumbersItems room numToString xs p 0 iss"
| "checkNumbersAreStrings (Suc room) numToString (JObject kvs) p iss =
     checkNumbersEntries room numToString kvs p iss"
| "checkNumbersAreStrings (Suc room) numToString (JBool b) p iss = Some iss"
| "checkNumbersAreStrings (Suc room) numToString (JString s) p iss = Some iss"
| "checkNumbersItems room numToString [] p i iss = Some iss"
| "checkNumbersItems room numToString (x # xs) p i iss =
     (case checkNumbersAreStrings room numToString x (p @ ''['' @ showNat i @ '']'') iss of
        None \<Rightarrow> None
      | Some iss1 \<Rightarrow> checkNumbersItems room numToString xs p (Suc i) iss1)"
| "checkNumbersEntries room numToString [] p iss = Some iss"
| "checkNumbersEntries room numToString ((k, v) # kvs) p iss =
     (case checkNumbersAreStrings room numToString v (p @ ''.'' @ k) iss of
        None \<Rightarrow> None
      | Some iss1 \<Rightarrow> checkNumbersEntries room numToString kvs p iss1)"

text \<open>\<open>checkUintRangeFormat\<close>. The two \<open>in\<close> tests are on a value already known to be an object.\<close>

definition checkUintRangeFormat :: "jsval \<Rightarrow> string \<Rightarrow> ValidationIssue list \<Rightarrow> ValidationIssue list option" where
  "checkUintRangeFormat obj p iss =
     (if \<not> truthy obj \<or> typeof obj \<noteq> ''object'' then Some iss
      else do {
        hasStart \<leftarrow> hasProp ''start'' obj;
        hasEnd \<leftarrow> hasProp ''end'' obj;
        if hasStart \<or> hasEnd then do {
          iss1 \<leftarrow>
            (if \<not> hasStart then
               Some (iss @ [issue SevError (''UintRange missing '' @ dq @ ''start'' @ dq @ '' field'') (Some p)])
             else do {
               start \<leftarrow> getProp obj ''start'';
               Some (if typeof start \<noteq> ''string'' then
                       iss @ [issue SevError
                         (''UintRange '' @ dq @ ''start'' @ dq @ '' must be a string, got '' @ typeof start)
                         (Some (p @ ''.start''))]
                     else iss)
             });
          (if \<not> hasEnd then
             Some (iss1 @ [issue SevError (''UintRange missing '' @ dq @ ''end'' @ dq @ '' field'') (Some p)])
           else do {
             end' \<leftarrow> getProp obj ''end'';
             Some (if typeof end' \<noteq> ''string'' then
                     iss1 @ [issue SevError
                       (''UintRange '' @ dq @ ''end'' @ dq @ '' must be a string, got '' @ typeof end')
                       (Some (p @ ''.end''))]
                   else iss1)
           })
        } else Some iss
      })"

text \<open>\<open>findAndValidateUintRanges\<close>: the recursive search for range objects.\<close>

fun findAndValidateUintRanges ::
      "nat \<Rightarrow> jsval \<Rightarrow> string \<Rightarrow> ValidationIssue list \<Rightarrow> ValidationIssue list option"
  and findRangesItems ::
      "nat \<Rightarrow> jsval list \<Rightarrow> string \<Rightarrow> nat \<Rightarrow> ValidationIssue list \<Rightarrow> ValidationIssue list option"
  and findRangesEntries ::
      "nat \<Rightarrow> (string \<times> jsval) list \<Rightarrow> string \<Rightarrow> ValidationIssue list \<Rightarrow> ValidationIssue list option"
where
  "findAndValidateUintRanges 0 obj p iss = None"
| "findAndValidateUintRanges (Suc room) (JArray xs) p iss = findRangesItems room xs p 0 iss"
| "findAndValidateUintRanges (Suc room) (JObject kvs) p iss =
     (case checkUintRangeFormat (JObject kvs) p iss of
        None \<Rightarrow> None
      | Some iss1 \<Rightarrow> findRangesEntries room kvs p iss1)"
| "findAndValidateUintRanges (Suc room) JNull p iss = Some iss"
| "findAndValidateUintRanges (Suc room) JUndefined p iss = Some iss"
| "findAndValidateUintRanges (Suc room) (JBool b) p iss = Some iss"
| "findAndValidateUintRanges (Suc room) (JNumber n) p iss = Some iss"
| "findAndValidateUintRanges (Suc room) (JString s) p iss = Some iss"
| "findRangesItems room [] p i iss = Some iss"
| "findRangesItems room (x # xs) p i iss =
     (case findAndValidateUintRanges room x (p @ ''['' @ showNat i @ '']'') iss of
        None \<Rightarrow> None
      | Some iss1 \<Rightarrow> findRangesItems room xs p (Suc i) iss1)"
| "findRangesEntries room [] p iss = Some iss"
| "findRangesEntries room ((k, v) # kvs) p iss =
     (case findAndValidateUintRanges room v (p @ ''.'' @ k) iss of
        None \<Rightarrow> None
      | Some iss1 \<Rightarrow> findRangesEntries room kvs p iss1)"

text \<open>\<open>validateOrderCalculationMethod\<close>.\<close>

definition orderCalcMethods :: "string list" where
  "orderCalcMethods =
     [''useOverallNumTransfers'', ''usePerToAddressNumTransfers'', ''usePerFromAddressNumTransfers'',
      ''usePerInitiatedByAddressNumTransfers'', ''useMerkleChallengeLeafIndex'']"

definition validateOrderCalculationMethod ::
    "jsval \<Rightarrow> string \<Rightarrow> ValidationIssue list \<Rightarrow> ValidationIssue list option" where
  "validateOrderCalculationMethod orderCalc p iss = do {
     flags \<leftarrow> those (map (getProp orderCalc) orderCalcMethods);
     let trueCount = length (filter (\<lambda>v. v = JBool True) flags);
     Some (if trueCount > 1 then
             iss @ [issue SevError
               (''orderCalculationMethod MUST have exactly ONE method set to true, found '' @ showNat trueCount)
               (Some p)]
           else if trueCount = 0 then
             iss @ [issue SevWarning
               ''orderCalculationMethod should have exactly ONE method set to true (default: useOverallNumTransfers)''
               (Some p)]
           else iss)
   }"

text \<open>\<open>validateSubscriptionApproval\<close>, with the callback of its \<open>coinTransfers\<close> loop first.\<close>

definition coinTransferCheck :: "string \<Rightarrow> jsval \<Rightarrow> nat \<Rightarrow> ValidationIssue list \<Rightarrow> ValidationIssue list option" where
  "coinTransferCheck p ct ctIndex iss =
     (if \<not> truthy ct \<or> typeof ct \<noteq> ''object'' then Some iss
      else do {
        fromFlag \<leftarrow> getProp ct ''overrideFromWithApproverAddress'';
        let iss1 =
          (if fromFlag = JBool True then
             iss @ [issue SevWarning
               ''Subscription coinTransfers should have overrideFromWithApproverAddress: false''
               (Some (p @ ''.approvalCriteria.coinTransfers['' @ showNat ctIndex
                        @ ''].overrideFromWithApproverAddress''))]
           else iss);
        toFlag \<leftarrow> getProp ct ''overrideToWithInitiator'';
        Some (if toFlag = JBool True then
                iss1 @ [issue SevWarning
                  ''Subscription coinTransfers should have overrideToWithInitiator: false''
                  (Some (p @ ''.approvalCriteria.coinTransfers['' @ showNat ctIndex
                           @ ''].overrideToWithInitiator''))]
              else iss1)
      })"

definition validateSubscriptionApproval ::
    "jsval \<Rightarrow> string \<Rightarrow> ValidationIssue list \<Rightarrow> ValidationIssue list option" where
  "validateSubscriptionApproval approval p iss = do {
     criteria \<leftarrow> getProp approval ''approvalCriteria'';
     if \<not> truthy criteria then Some iss
     else do {
       coinTransfers \<leftarrow> getProp criteria ''coinTransfers'';
       iss1 \<leftarrow> (case coinTransfers of
                 JArray cts \<Rightarrow> forEach (coinTransferCheck p) cts iss
               | _ \<Rightarrow> Some iss);
       predeterminedBalances \<leftarrow> getProp criteria ''predeterminedBalances'';
       if truthy predeterminedBalances then do {
         incrementedBalances \<leftarrow> getProp predeterminedBalances ''incrementedBalances'';
         iss2 \<leftarrow>
           (if truthy incrementedBalances then do {
              duration \<leftarrow> getProp incrementedBalances ''durationFromTimestamp'';
              let iss' =
                (if duration = JString ''0'' \<or> duration = JNumber (Finite 0) then
                   iss1 @ [issue SevWarning
                     ''Subscription durationFromTimestamp should be non-zero (subscription duration in ms)''
                     (Some (p @ ''.approvalCriteria.predeterminedBalances.incrementedBalances.durationFromTimestamp''))]
                 else iss1);
              allowOverride \<leftarrow> getProp incrementedBalances ''allowOverrideTimestamp'';
              Some (if allowOverride \<noteq> JBool True then
                      iss' @ [issue SevWarning
                        ''Subscription allowOverrideTimestamp should be true''
                        (Some (p @ ''.approvalCriteria.predeterminedBalances.incrementedBalances.allowOverrideTimestamp''))]
                    else iss')
            } else Some iss1);
         orderCalc \<leftarrow> getProp predeterminedBalances ''orderCalculationMethod'';
         if truthy orderCalc then
           validateOrderCalculationMethod orderCalc
             (p @ ''.approvalCriteria.predeterminedBalances.orderCalculationMethod'') iss2
         else Some iss2
       } else Some iss1
     }
   }"

text \<open>
  \<open>validateApprovals\<close>. First the callback of the loop over the three list-identifier
  fields, then the callback of the loop over the approvals.
\<close>

definition listIdCheck :: "jsval \<Rightarrow> string \<Rightarrow> string \<Rightarrow> nat \<Rightarrow> ValidationIssue list \<Rightarrow> ValidationIssue list option" where
  "listIdCheck a approvalPath field i iss = do {
     present \<leftarrow> hasProp field a;
     if present then do {
       v \<leftarrow> getProp a field;
       (case v of
          JString s \<Rightarrow>
            Some (if \<not> isValidListId s then
                    iss @ [issue SevError
                      (''Invalid list ID: '' @ dq @ s @ dq
                         @ ''. Use only reserved IDs (All, Mint, !Mint, Total) or bb1... addresses'')
                      (Some (approvalPath @ ''.'' @ field))]
                  else iss)
        | _ \<Rightarrow> Some iss)
     } else Some iss
   }"

definition mintOverrideIssue :: "string \<Rightarrow> ValidationIssue" where
  "mintOverrideIssue approvalPath =
     issue SevError ''Mint approvals MUST have overridesFromOutgoingApprovals: true''
       (Some (approvalPath @ ''.approvalCriteria.overridesFromOutgoingApprovals''))"

definition approvalCheck ::
    "bool \<Rightarrow> string \<Rightarrow> jsval \<Rightarrow> nat \<Rightarrow> ValidationIssue list \<Rightarrow> ValidationIssue list option" where
  "approvalCheck isSubscription p approval index iss =
     (if \<not> truthy approval \<or> typeof approval \<noteq> ''object'' then Some iss
      else do {
        let approvalPath = p @ ''['' @ showNat index @ '']'';
        iss1 \<leftarrow> forEach (listIdCheck approval approvalPath)
                  [''fromListId'', ''toListId'', ''initiatedByListId''] iss;
        fromListId \<leftarrow> getProp approval ''fromListId'';
        iss2 \<leftarrow>
          (if fromListId = JString ''Mint'' then do {
             criteria \<leftarrow> getProp approval ''approvalCriteria'';
             issA \<leftarrow>
               (if truthy criteria then do {
                  flag \<leftarrow> getProp criteria ''overridesFromOutgoingApprovals'';
                  Some (if flag \<noteq> JBool True then iss1 @ [mintOverrideIssue approvalPath] else iss1)
                } else Some iss1);
             if isSubscription then validateSubscriptionApproval approval approvalPath issA
             else Some issA
           } else Some iss1);
        iss3 \<leftarrow>
          (case fromListId of
             JString f \<Rightarrow>
               if startsWith f ''bb1'' \<and> \<not> includesStr f ''Mint'' then do {
                 criteria \<leftarrow> getProp approval ''approvalCriteria'';
                 if truthy criteria then do {
                   flag \<leftarrow> getProp criteria ''overridesFromOutgoingApprovals'';
                   if flag = JBool True then do {
                     backed \<leftarrow> getProp criteria ''allowBackedMinting'';
                     Some (if backed = JBool True then
                             iss2 @ [issue SevWarning
                               ''Backing address approvals should NOT have overridesFromOutgoingApprovals: true''
                               (Some (approvalPath @ ''.approvalCriteria.overridesFromOutgoingApprovals''))]
                           else iss2)
                   } else Some iss2
                 } else Some iss2
               } else Some iss2
           | _ \<Rightarrow> Some iss2);
        approvalId \<leftarrow> getProp approval ''approvalId'';
        Some (if \<not> truthy approvalId \<or> typeof approvalId \<noteq> ''string'' then
                iss3 @ [issue SevError
                  (''Approval missing required '' @ dq @ ''approvalId'' @ dq @ '' field'')
                  (Some approvalPath)]
              else iss3)
      })"

text \<open>
  The parameter \<open>standards\<close> is \<open>None\<close> where the caller passes \<open>undefined\<close>, and the
  elements of the array otherwise.
\<close>

definition validateApprovals ::
    "jsval list \<Rightarrow> string \<Rightarrow> ValidationIssue list \<Rightarrow> jsval list option \<Rightarrow> ValidationIssue list option" where
  "validateApprovals approvals p iss standards =
     (let isSubscription =
            (case standards of None \<Rightarrow> False | Some sts \<Rightarrow> JString ''Subscriptions'' \<in> set sts)
      in forEach (approvalCheck isSubscription p) approvals iss)"

text \<open>\<open>validateTokenMetadata\<close>.\<close>

definition tokenMetadataCheck :: "string \<Rightarrow> jsval \<Rightarrow> nat \<Rightarrow> ValidationIssue list \<Rightarrow> ValidationIssue list option" where
  "tokenMetadataCheck p entry index iss =
     (if \<not> truthy entry \<or> typeof entry \<noteq> ''object'' then Some iss
      else do {
        let entryPath = p @ ''['' @ showNat index @ '']'';
        present \<leftarrow> hasProp ''tokenIds'' entry;
        tokenIds \<leftarrow> (if present then getProp entry ''tokenIds'' else Some JUndefined);
        Some (if \<not> present \<or> (case tokenIds of JArray xs \<Rightarrow> length xs = 0 | _ \<Rightarrow> True) then
                iss @ [issue SevError
                  ''tokenMetadata entry MUST include tokenIds field with UintRange array''
                  (Some entryPath)]
              else iss)
      })"

definition validateTokenMetadata ::
    "jsval list \<Rightarrow> string \<Rightarrow> ValidationIssue list \<Rightarrow> ValidationIssue list option" where
  "validateTokenMetadata metadata p iss = forEach (tokenMetadataCheck p) metadata iss"

text \<open>
  \<open>validatePermissions\<close>: the callback of the loop over the entries of one token-scoped
  permission array, the callback of the loop over the two token-scoped field names, and
  the callback of the loop over \<open>Object.entries\<close>.
\<close>

definition nonEmptyArray :: "jsval \<Rightarrow> bool" where
  "nonEmptyArray v = (case v of JArray xs \<Rightarrow> length xs > 0 | _ \<Rightarrow> False)"

definition emptyArray :: "jsval \<Rightarrow> bool" where
  "emptyArray v = (case v of JArray xs \<Rightarrow> length xs = 0 | _ \<Rightarrow> False)"

definition tokenPermCheck :: "string \<Rightarrow> string \<Rightarrow> jsval \<Rightarrow> nat \<Rightarrow> ValidationIssue list \<Rightarrow> ValidationIssue list option" where
  "tokenPermCheck p field perm index iss =
     (if \<not> truthy perm \<or> typeof perm \<noteq> ''object'' then Some iss
      else do {
        permitted \<leftarrow> getProp perm ''permanentlyPermittedTimes'';
        hasTimes \<leftarrow>
          (if nonEmptyArray permitted then Some True
           else do {
             forbidden \<leftarrow> getProp perm ''permanentlyForbiddenTimes'';
             Some (nonEmptyArray forbidden)
           });
        if hasTimes then do {
          present \<leftarrow> hasProp ''tokenIds'' perm;
          Some (if \<not> present then
                  iss @ [issue SevError (field @ '' permission MUST include tokenIds field'')
                           (Some (p @ ''.'' @ field @ ''['' @ showNat index @ '']''))]
                else iss)
        } else Some iss
      })"

definition tokenPermFieldCheck :: "jsval \<Rightarrow> string \<Rightarrow> string \<Rightarrow> nat \<Rightarrow> ValidationIssue list \<Rightarrow> ValidationIssue list option" where
  "tokenPermFieldCheck perms p field i iss = do {
     present \<leftarrow> hasProp field perms;
     if present then do {
       v \<leftarrow> getProp perms field;
       (case v of
          JArray xs \<Rightarrow> forEach (tokenPermCheck p field) xs iss
        | _ \<Rightarrow> Some iss)
     } else Some iss
   }"

definition emptyPermCheck :: "string \<Rightarrow> (string \<times> jsval) \<Rightarrow> nat \<Rightarrow> ValidationIssue list \<Rightarrow> ValidationIssue list option" where
  "emptyPermCheck p entry i iss =
     (case entry of (field, v) \<Rightarrow>
        (case v of
           JArray [perm] \<Rightarrow>
             if truthy perm then do {
               permitted \<leftarrow> getProp perm ''permanentlyPermittedTimes'';
               if emptyArray permitted then do {
                 forbidden \<leftarrow> getProp perm ''permanentlyForbiddenTimes'';
                 Some (if emptyArray forbidden then
                         iss @ [issue SevWarning
                           (''Permission '' @ dq @ field @ dq
                              @ '' has both time arrays empty - should be [] instead of full object'')
                           (Some (p @ ''.'' @ field))]
                       else iss)
               } else Some iss
             } else Some iss
         | _ \<Rightarrow> Some iss))"

definition validatePermissions :: "jsval \<Rightarrow> string \<Rightarrow> ValidationIssue list \<Rightarrow> ValidationIssue list option" where
  "validatePermissions permissions p iss =
     (if \<not> truthy permissions \<or> typeof permissions \<noteq> ''object'' then Some iss
      else do {
        iss1 \<leftarrow> forEach (tokenPermFieldCheck permissions p)
                  [''canUpdateValidTokenIds'', ''canUpdateTokenMetadata''] iss;
        forEach (emptyPermCheck p) (objectEntries permissions) iss1
      })"

text \<open>
  \<open>handleValidateTransaction\<close>. The two blocks of the message loop that are guarded by the
  message type come first, each as a function of the message's \<open>value\<close>; then the
  callback of the message loop; then the function itself. Within the first block, the check
  of \<open>creator\<close> and the check of \<open>validTokenIds\<close> under the subscription standard are
  functions of their own. Calling \<open>startsWith\<close> on a value that is not a string would throw.
\<close>

definition universalCreatorCheck ::
    "jsval \<Rightarrow> string \<Rightarrow> ValidationIssue list \<Rightarrow> ValidationIssue list option" where
  "universalCreatorCheck val msgPath iss = do {
     creator \<leftarrow> getProp val ''creator'';
     if \<not> truthy creator \<or> typeof creator \<noteq> ''string'' then
       Some (iss @ [issue SevError
         (''MsgUniversalUpdateCollection missing '' @ dq @ ''creator'' @ dq @ '' field'')
         (Some (msgPath @ ''.value.creator''))])
     else
       (case creator of
          JString c \<Rightarrow>
            Some (if \<not> startsWith c ''bb1'' then
                    iss @ [issue SevWarning
                      (''Creator address should start with '' @ dq @ ''bb1'' @ dq)
                      (Some (msgPath @ ''.value.creator''))]
                  else iss)
        | _ \<Rightarrow> None)
   }"

definition subscriptionTokenIdsCheck ::
    "jsval \<Rightarrow> string \<Rightarrow> ValidationIssue list \<Rightarrow> ValidationIssue list option" where
  "subscriptionTokenIdsCheck val msgPath iss = do {
     standards \<leftarrow> getProp val ''standards'';
     (case standards of
        JArray sts \<Rightarrow>
          if JString ''Subscriptions'' \<in> set sts then do {
            validTokenIds \<leftarrow> getProp val ''validTokenIds'';
            (case validTokenIds of
               JArray tokenIds \<Rightarrow>
                 (case tokenIds of
                    [range0] \<Rightarrow>
                      if truthy range0 then do {
                        start \<leftarrow> getProp range0 ''start'';
                        bad \<leftarrow>
                          (if start \<noteq> JString ''1'' then Some True
                           else do {
                             end' \<leftarrow> getProp range0 ''end'';
                             Some (end' \<noteq> JString ''1'')
                           });
                        Some (if bad then
                                iss @ [issue SevWarning
                                  (''Subscription collections should have validTokenIds: [{ ''
                                     @ dq @ ''start'' @ dq @ '': '' @ dq @ ''1'' @ dq @ '', ''
                                     @ dq @ ''end'' @ dq @ '': '' @ dq @ ''1'' @ dq @ '' }]'')
                                  (Some (msgPath @ ''.value.validTokenIds''))]
                              else iss)
                      } else Some iss
                  | _ \<Rightarrow>
                      Some (iss @ [issue SevWarning
                        ''Subscription collections should have exactly 1 validTokenIds range''
                        (Some (msgPath @ ''.value.validTokenIds''))]))
             | _ \<Rightarrow> Some iss)
          } else Some iss
      | _ \<Rightarrow> Some iss)
   }"

definition msgUniversalUpdateCollectionCheck ::
    "jsval \<Rightarrow> string \<Rightarrow> ValidationIssue list \<Rightarrow> ValidationIssue list option" where
  "msgUniversalUpdateCollectionCheck val msgPath iss = do {
     iss1 \<leftarrow> universalCreatorCheck val msgPath iss;
     hasCollectionId \<leftarrow> hasProp ''collectionId'' val;
     let iss2 =
       (if \<not> hasCollectionId then
          iss1 @ [issue SevError
            (''MsgUniversalUpdateCollection missing '' @ dq @ ''collectionId'' @ dq @ '' field'')
            (Some (msgPath @ ''.value.collectionId''))]
        else iss1);
     collectionApprovals \<leftarrow> getProp val ''collectionApprovals'';
     iss3 \<leftarrow>
       (case collectionApprovals of
          JArray approvals \<Rightarrow> do {
            standards \<leftarrow> getProp val ''standards'';
            validateApprovals approvals (msgPath @ ''.value.collectionApprovals'') iss2
              (case standards of JArray sts \<Rightarrow> Some sts | _ \<Rightarrow> None)
          }
        | _ \<Rightarrow> Some iss2);
     iss4 \<leftarrow> subscriptionTokenIdsCheck val msgPath iss3;
     tokenMetadata \<leftarrow> getProp val ''tokenMetadata'';
     iss5 \<leftarrow>
       (case tokenMetadata of
          JArray metadata \<Rightarrow> validateTokenMetadata metadata (msgPath @ ''.value.tokenMetadata'') iss4
        | _ \<Rightarrow> Some iss4);
     collectionPermissions \<leftarrow> getProp val ''collectionPermissions'';
     if truthy collectionPermissions then
       validatePermissions collectionPermissions (msgPath @ ''.value.collectionPermissions'') iss5
     else Some iss5
   }"

definition transferCheck :: "string \<Rightarrow> jsval \<Rightarrow> nat \<Rightarrow> ValidationIssue list \<Rightarrow> ValidationIssue list option" where
  "transferCheck msgPath transfer tIndex iss =
     (if \<not> truthy transfer \<or> typeof transfer \<noteq> ''object'' then Some iss
      else do {
        let transferPath = msgPath @ ''.value.transfers['' @ showNat tIndex @ '']'';
        present \<leftarrow> hasProp ''prioritizedApprovals'' transfer;
        Some (if \<not> present then
                iss @ [issue SevWarning
                  ''prioritizedApprovals should always be explicitly specified (use [] if none needed)''
                  (Some (transferPath @ ''.prioritizedApprovals''))]
              else iss)
      })"

definition msgTransferTokensCheck ::
    "jsval \<Rightarrow> string \<Rightarrow> ValidationIssue list \<Rightarrow> ValidationIssue list option" where
  "msgTransferTokensCheck val msgPath iss = do {
     creator \<leftarrow> getProp val ''creator'';
     let iss1 =
       (if \<not> truthy creator \<or> typeof creator \<noteq> ''string'' then
          iss @ [issue SevError
            (''MsgTransferTokens missing '' @ dq @ ''creator'' @ dq @ '' field'')
            (Some (msgPath @ ''.value.creator''))]
        else iss);
     transfers \<leftarrow> getProp val ''transfers'';
     (case transfers of
        JArray ts \<Rightarrow> forEach (transferCheck msgPath) ts iss1
      | _ \<Rightarrow>
          Some (iss1 @ [issue SevError
            (''MsgTransferTokens missing '' @ dq @ ''transfers'' @ dq @ '' array'')
            (Some (msgPath @ ''.value.transfers''))]))
   }"

definition messageCheck :: "jsval \<Rightarrow> nat \<Rightarrow> ValidationIssue list \<Rightarrow> ValidationIssue list option" where
  "messageCheck msg msgIndex iss =
     (if \<not> truthy msg \<or> typeof msg \<noteq> ''object'' then Some iss
      else do {
        let msgPath = ''messages['' @ showNat msgIndex @ '']'';
        typeUrl \<leftarrow> getProp msg ''typeUrl'';
        let iss1 =
          (if \<not> truthy typeUrl \<or> typeof typeUrl \<noteq> ''string'' then
             iss @ [issue SevError (''Message missing '' @ dq @ ''typeUrl'' @ dq @ '' field'') (Some msgPath)]
           else iss);
        val \<leftarrow> getProp msg ''value'';
        if \<not> truthy val \<or> typeof val \<noteq> ''object'' then
          Some (iss1 @ [issue SevError (''Message missing '' @ dq @ ''value'' @ dq @ '' object'') (Some msgPath)])
        else do {
          iss2 \<leftarrow>
            (if typeUrl = JString ''/tokenization.MsgUniversalUpdateCollection'' then
               msgUniversalUpdateCollectionCheck val msgPath iss1
             else Some iss1);
          if typeUrl = JString ''/tokenization.MsgTransferTokens'' then
            msgTransferTokensCheck val msgPath iss2
          else Some iss2
        }
      })"

text \<open>
  \<open>JSON.parse\<close> is the platform's: the parameter \<open>parse\<close> gives the parsed value, or the
  message of the error it throws. The parameter \<open>room\<close> is the room that the call stack has
  for the two walks. A result of \<open>None\<close> is an uncaught exception.
\<close>

definition handleValidateTransaction ::
    "nat \<Rightarrow> (string \<Rightarrow> string + jsval) \<Rightarrow> (jsnumber \<Rightarrow> string) \<Rightarrow> string \<Rightarrow> ValidateTransactionResult option" where
  "handleValidateTransaction room parse numToString transactionJson =
     (case parse transactionJson of
        Inl err \<Rightarrow>
          Some \<lparr>valid = False, issues = [issue SevError (''Invalid JSON: '' @ err) None]\<rparr>
      | Inr tx \<Rightarrow>
          if \<not> truthy tx \<or> typeof tx \<noteq> ''object'' then
            Some \<lparr>valid = False, issues = [issue SevError ''Transaction must be a JSON object'' None]\<rparr>
          else do {
            messages \<leftarrow> getProp tx ''messages'';
            (case messages of
               JArray msgs \<Rightarrow> do {
                 iss1 \<leftarrow> checkNumbersAreStrings room numToString tx [] [];
                 iss2 \<leftarrow> findAndValidateUintRanges room tx [] iss1;
                 iss3 \<leftarrow> forEach messageCheck msgs iss2;
                 Some \<lparr>valid = (length (filter (\<lambda>i. severity i = SevError) iss3) = 0), issues = iss3\<rparr>
               }
             | _ \<Rightarrow>
                 Some \<lparr>valid = False,
                       issues = [] @ [issue SevError
                         (''Transaction must have a '' @ dq @ ''messages'' @ dq @ '' array'')
                         (Some ''messages'')]\<rparr>)
          })"

section \<open>Buffers, hexadecimal text and the platform\<close>

text \<open>
  A byte is a \<open>char\<close> (eight bits) and a \<open>Buffer\<close> is a list of them. As strings are held
  in UTF-8, \<open>Buffer.from(s, 'utf8')\<close> is the string itself.
\<close>

type_synonym bytes = "char list"

definition hexDigits :: string where
  "hexDigits = ''0123456789abcdef''"

text \<open>\<open>buf.toString('hex')\<close>: two lower-case digits for each byte.\<close>

definition byteToHex :: "char \<Rightarrow> string" where
  "byteToHex b = [hexDigits ! (of_char b div 16), hexDigits ! (of_char b mod 16)]"

definition toHex :: "bytes \<Rightarrow> string" where
  "toHex bs = concat (map byteToHex bs)"

definition hexVal :: "char \<Rightarrow> nat option" where
  "hexVal c =
     (let n = (of_char c :: nat) in
      if 48 \<le> n \<and> n \<le> 57 then Some (n - 48)
      else if 97 \<le> n \<and> n \<le> 102 then Some (n - 87)
      else if 65 \<le> n \<and> n \<le> 70 then Some (n - 55)
      else None)"

text \<open>
  \<open>Buffer.from(s, 'hex')\<close>: one byte for each pair of digits, stopping at the first pair
  that is not two hexadecimal digits.
\<close>

fun fromHex :: "string \<Rightarrow> bytes" where
  "fromHex (a # b # rest) =
     (case (hexVal a, hexVal b) of
        (Some x, Some y) \<Rightarrow> char_of (16 * x + y) # fromHex rest
      | _ \<Rightarrow> [])"
| "fromHex rest = []"

text \<open>\<open>isHex\<close>: the test of the regular expression \<open>/^[0-9a-fA-F]+$/\<close>.\<close>

definition isHex :: "string \<Rightarrow> bool" where
  "isHex str = (str \<noteq> [] \<and> list_all (\<lambda>c. hexVal c \<noteq> None) str)"

text \<open>
  What the sources take from the platform and from the \<open>bech32\<close> package is a parameter
  of the model: SHA-256 (\<open>crypto.createHash('sha256')\<close>), the four functions of the
  codec, and the two case conversions of strings. A codec function that throws gives
  \<open>Inl\<close> of the error. The words of the codec are five-bit numbers.
\<close>

datatype jsError = Error string | TypeError string

record platform =
  sha256 :: "bytes \<Rightarrow> bytes"
  toWords :: "bytes \<Rightarrow> int list"
  fromWords :: "int list \<Rightarrow> jsError + bytes"
  encode :: "string \<Rightarrow> int list \<Rightarrow> jsError + string"
  decode :: "string \<Rightarrow> jsError + (string \<times> int list)"
  toUpperCase :: "string \<Rightarrow> string"
  toLowerCase :: "string \<Rightarrow> string"

section \<open>Address derivation (addressGenerator)\<close>

definition BackedPathGenerationPrefix :: char where
  "BackedPathGenerationPrefix = CHR 0x12"

definition DenomGenerationPrefix :: char where
  "DenomGenerationPrefix = CHR 0x0c"

text \<open>\<open>Hash\<close>: the digest of the type, then the digest of that digest followed by the key, in hex.\<close>

definition Hash :: "platform \<Rightarrow> bytes \<Rightarrow> bytes \<Rightarrow> string" where
  "Hash lib typ key = (let th = sha256 lib typ in toHex (sha256 lib (th @ key)))"

definition Derive :: "platform \<Rightarrow> string \<Rightarrow> bytes \<Rightarrow> string" where
  "Derive lib address key = Hash lib (fromHex address) key"

text \<open>The loop of \<open>Module\<close> over the keys after the first.\<close>

fun deriveLoop :: "platform \<Rightarrow> string \<Rightarrow> bytes list \<Rightarrow> string" where
  "deriveLoop lib addr [] = addr"
| "deriveLoop lib addr (k # ks) = deriveLoop lib (Derive lib addr k) ks"

definition Module :: "platform \<Rightarrow> string \<Rightarrow> bytes list \<Rightarrow> jsError + string" where
  "Module lib moduleName derivationKeys =
     (case derivationKeys of
        [] \<Rightarrow> Inl (Error ''derivationKeys must not be empty'')
      | k0 # ks \<Rightarrow>
          (let mKey = moduleName @ [CHR 0x00];
               addr = Hash lib ''module'' (mKey @ k0)
           in Inr (deriveLoop lib addr ks)))"

definition generateAlias :: "platform \<Rightarrow> string \<Rightarrow> bytes list \<Rightarrow> jsError + string" where
  "generateAlias lib moduleName derivationKeys =
     (case Module lib moduleName derivationKeys of
        Inl e \<Rightarrow> Inl e
      | Inr address \<Rightarrow> encode lib ''bb'' (toWords lib (fromHex address)))"

definition getAliasDerivationKeysForIBCBackedDenom :: "string \<Rightarrow> bytes list" where
  "getAliasDerivationKeysForIBCBackedDenom ibcDenom = [[BackedPathGenerationPrefix], ibcDenom]"

definition generateAliasAddressForIBCBackedDenom :: "platform \<Rightarrow> string \<Rightarrow> jsError + string" where
  "generateAliasAddressForIBCBackedDenom lib ibcDenom =
     generateAlias lib ''tokenization'' (getAliasDerivationKeysForIBCBackedDenom ibcDenom)"

definition getAliasDerivationKeysForDenom :: "string \<Rightarrow> bytes list" where
  "getAliasDerivationKeysForDenom denom = [[DenomGenerationPrefix], denom]"

definition generateAliasAddressForDenom :: "platform \<Rightarrow> string \<Rightarrow> jsError + string" where
  "generateAliasAddressForDenom lib denom =
     generateAlias lib ''tokenization'' (getAliasDerivationKeysForDenom denom)"

section \<open>Address conversion (addressUtils.ts)\<close>

definition BITBADGES_PREFIX :: string where
  "BITBADGES_PREFIX = ''bb''"

definition ethToCosmos :: "platform \<Rightarrow> string \<Rightarrow> jsError + string" where
  "ethToCosmos lib ethAddress =
     (if \<not> startsWith ethAddress ''0x'' then Inl (Error ''Invalid ETH address: must start with 0x'')
      else let hex = drop 2 ethAddress in
        if length hex \<noteq> 40 \<or> \<not> isHex hex then
          Inl (Error ''Invalid ETH address: must be 40 hex characters after 0x'')
        else encode lib BITBADGES_PREFIX (toWords lib (fromHex hex)))"

text \<open>
  \<open>cosmosToEth\<close>. Every error thrown inside the \<open>try\<close> block is an \<open>Error\<close> object, which
  the \<open>catch\<close> clause throws again as it is.
\<close>

definition cosmosToEth :: "platform \<Rightarrow> string \<Rightarrow> jsError + string" where
  "cosmosToEth lib cosmosAddress =
     (if \<not> startsWith cosmosAddress (BITBADGES_PREFIX @ ''1'') then
        Inl (Error (''Invalid BitBadges address: must start with '' @ BITBADGES_PREFIX @ ''1''))
      else
        (case decode lib cosmosAddress of
           Inl e \<Rightarrow> Inl e
         | Inr (hrp, words) \<Rightarrow>
             (case fromWords lib words of
                Inl e \<Rightarrow> Inl e
              | Inr bs \<Rightarrow>
                  if length bs \<noteq> 20 then
                    Inl (Error ''Address is not a standard 20-byte address (may be a module-derived address)'')
                  else Inr (''0x'' @ toHex bs))))"

definition toBitBadgesAddress :: "platform \<Rightarrow> string \<Rightarrow> jsError + string" where
  "toBitBadgesAddress lib address =
     (if startsWith address (BITBADGES_PREFIX @ ''1'') then Inr address
      else if startsWith address ''0x'' then ethToCosmos lib address
      else Inl (Error ''Unknown address format''))"

definition toEthAddress :: "platform \<Rightarrow> string \<Rightarrow> jsError + string" where
  "toEthAddress lib address =
     (if startsWith address ''0x'' then Inr address
      else if startsWith address (BITBADGES_PREFIX @ ''1'') then cosmosToEth lib address
      else Inl (Error ''Unknown address format''))"

section \<open>The coin registry (coinRegistry.ts)\<close>

text \<open>
  The fields of \<open>CoinDetails\<close> and of \<open>TokenInfo\<close>. Those of \<open>TokenInfo\<close> that share a name
  with a field of \<open>CoinDetails\<close> are written \<open>tokenSymbol\<close> and \<open>tokenDecimals\<close>.
\<close>

record CoinDetails =
  symbol :: string
  label :: string
  decimals :: string
  baseDenom :: string
  imageUrl :: "string option"

record TokenInfo =
  tokenSymbol :: string
  ibcDenom :: string
  tokenDecimals :: string
  backingAddress :: string
  displayName :: string

definition MAINNET_COINS_REGISTRY :: "(string \<times> CoinDetails) list" where
  "MAINNET_COINS_REGISTRY =
     [(''ubadge'',
       \<lparr>symbol = ''BADGE'', label = ''BADGE'', decimals = ''9'', baseDenom = ''ubadge'',
        imageUrl = Some ''https://github.com/cosmos/chain-registry/blob/master/bitbadges/images/badge_logo.png?raw=true''\<rparr>),
      (''badges:49:chaosnet'',
       \<lparr>symbol = ''CHAOS'', label = ''CHAOS'', decimals = ''9'', baseDenom = ''badges:49:chaosnet'',
        imageUrl = Some ''https://bitbadges.io/_next/image?url=https%3A%2F%2Fbitbadges-ipfs.infura-ipfs.io%2Fipfs%2FQmdRQUvQBo6p24RQ7AS7RD6srqyUjoHJ5Cjs4p22zie9bQ&w=1920&q=75''\<rparr>),
      (''ibc/F082B65C88E4B6D5EF1DB243CDA1D331D002759E938A0F5CD3FFDC5D53B3E349'',
       \<lparr>symbol = ''USDC'', label = ''USDC'', decimals = ''6'',
        baseDenom = ''ibc/F082B65C88E4B6D5EF1DB243CDA1D331D002759E938A0F5CD3FFDC5D53B3E349'',
        imageUrl = Some ''https://github.com/cosmos/chain-registry/blob/master/noble/images/USDCoin.png?raw=true''\<rparr>),
      (''ibc/A4DB47A9D3CF9A068D454513891B526702455D3EF08FB9EB558C561F9DC2B701'',
       \<lparr>symbol = ''ATOM'', label = ''ATOM'', decimals = ''6'',
        baseDenom = ''ibc/A4DB47A9D3CF9A068D454513891B526702455D3EF08FB9EB558C561F9DC2B701'',
        imageUrl = Some ''https://github.com/cosmos/chain-registry/blob/master/cosmoshub/images/atom.png?raw=true''\<rparr>),
      (''ibc/ED07A3391A112B175915CD8FAF43A2DA8E4790EDE12566649D0C2F97716B8518'',
       \<lparr>symbol = ''OSMO'', label = ''OSMO'', decimals = ''6'',
        baseDenom = ''ibc/ED07A3391A112B175915CD8FAF43A2DA8E4790EDE12566649D0C2F97716B8518'',
        imageUrl = Some ''https://github.com/cosmos/chain-registry/blob/master/osmosis/images/osmo.png?raw=true''\<rparr>)]"

text \<open>
  The module variable \<open>symbolToTokenInfoCache\<close> is the state: \<open>None\<close> for \<open>null\<close>, and
  otherwise the entries of the \<open>Map\<close> in insertion order. Each function takes the state
  and returns it with its result.
\<close>

type_synonym tokenMap = "(string \<times> TokenInfo) list"

text \<open>The callback of the loop over \<open>Object.entries(MAINNET_COINS_REGISTRY)\<close>.\<close>

definition registerCoin :: "platform \<Rightarrow> tokenMap \<Rightarrow> (string \<times> CoinDetails) \<Rightarrow> tokenMap" where
  "registerCoin lib symbolMap entry =
     (case entry of (baseDenom', coinDetails) \<Rightarrow>
        if startsWith baseDenom' ''ibc/'' then
          (let sym = toUpperCase lib (symbol coinDetails) in
           if map_of symbolMap sym = None then
             (case generateAliasAddressForIBCBackedDenom lib baseDenom' of
                Inr address \<Rightarrow>
                  symbolMap @ [(sym, \<lparr>tokenSymbol = sym, ibcDenom = baseDenom',
                                       tokenDecimals = decimals coinDetails,
                                       backingAddress = address,
                                       displayName = label coinDetails\<rparr>)]
              | Inl e \<Rightarrow> symbolMap)
           else symbolMap)
        else symbolMap)"

definition buildSymbolToTokenInfoMap :: "platform \<Rightarrow> tokenMap option \<Rightarrow> tokenMap \<times> tokenMap option" where
  "buildSymbolToTokenInfoMap lib symbolToTokenInfoCache =
     (case symbolToTokenInfoCache of
        Some cached \<Rightarrow> (cached, symbolToTokenInfoCache)
      | None \<Rightarrow>
          (let symbolMap = foldl (registerCoin lib) [] MAINNET_COINS_REGISTRY
           in (symbolMap, Some symbolMap)))"

definition lookupTokenInfo ::
    "platform \<Rightarrow> string \<Rightarrow> tokenMap option \<Rightarrow> TokenInfo option \<times> tokenMap option" where
  "lookupTokenInfo lib query symbolToTokenInfoCache =
     (case buildSymbolToTokenInfoMap lib symbolToTokenInfoCache of (tokenMap, cache') \<Rightarrow>
        (let upperQuery = toUpperCase lib query in
         case map_of tokenMap upperQuery of
           Some tokenInfo \<Rightarrow> (Some tokenInfo, cache')
         | None \<Rightarrow>
             (let lowerQuery = toLowerCase lib query in
              case find (\<lambda>tokenInfo. toLowerCase lib (ibcDenom tokenInfo) = lowerQuery) (map snd tokenMap) of
                Some tokenInfo \<Rightarrow> (Some tokenInfo, cache')
              | None \<Rightarrow>
                  if startsWith query ''ibc/'' then
                    (case generateAliasAddressForIBCBackedDenom lib query of
                       Inr address \<Rightarrow>
                         (Some \<lparr>tokenSymbol = ''UNKNOWN'', ibcDenom = query, tokenDecimals = ''6'',
                                 backingAddress = address, displayName = ''Unknown IBC Token''\<rparr>,
                          cache')
                     | Inl e \<Rightarrow> (None, cache'))
                  else (None, cache'))))"

section \<open>A reference platform\<close>

text \<open>
  The general theorems hold for every platform. To evaluate the model at concrete
  inputs, this section gives one: SHA-256 as in FIPS 180-4, the codec as in the
  \<open>bech32\<close> package (BIP-173), and the case conversions on ASCII letters. Machine words
  are integers reduced modulo \<open>2 ^ 32\<close>.
\<close>

subsection \<open>SHA-256\<close>

definition w32 :: "int \<Rightarrow> int" where
  "w32 x = x mod 4294967296"

definition rotr :: "nat \<Rightarrow> int \<Rightarrow> int" where
  "rotr n x = x div 2 ^ n + (x mod 2 ^ n) * 2 ^ (32 - n)"

text \<open>The round constants and the initial state, in decimal.\<close>

definition sha256_K :: "int list" where
  "sha256_K =
    [1116352408, 1899447441, 3049323471, 3921009573, 961987163, 1508970993,
     2453635748, 2870763221, 3624381080, 310598401, 607225278, 1426881987,
     1925078388, 2162078206, 2614888103, 3248222580, 3835390401, 4022224774,
     264347078, 604807628, 770255983, 1249150122, 1555081692, 1996064986,
     2554220882, 2821834349, 2952996808, 3210313671, 3336571891, 3584528711,
     113926993, 338241895, 666307205, 773529912, 1294757372, 1396182291,
     1695183700, 1986661051, 2177026350, 2456956037, 2730485921, 2820302411,
     3259730800, 3345764771, 3516065817, 3600352804, 4094571909, 275423344,
     430227734, 506948616, 659060556, 883997877, 958139571, 1322822218,
     1537002063, 1747873779, 1955562222, 2024104815, 2227730452, 2361852424,
     2428436474, 2756734187, 3204031479, 3329325298]"

definition sha256_H0 :: "int list" where
  "sha256_H0 =
    [1779033703, 3144134277, 1013904242, 2773480762,
     1359893119, 2600822924, 528734635, 1541459225]"

definition ssig0 :: "int \<Rightarrow> int" where
  "ssig0 x = rotr 7 x XOR rotr 18 x XOR (x div 2 ^ 3)"

definition ssig1 :: "int \<Rightarrow> int" where
  "ssig1 x = rotr 17 x XOR rotr 19 x XOR (x div 2 ^ 10)"

definition bsig0 :: "int \<Rightarrow> int" where
  "bsig0 x = rotr 2 x XOR rotr 13 x XOR rotr 22 x"

definition bsig1 :: "int \<Rightarrow> int" where
  "bsig1 x = rotr 6 x XOR rotr 11 x XOR rotr 25 x"

definition ch :: "int \<Rightarrow> int \<Rightarrow> int \<Rightarrow> int" where
  "ch x y z = (x AND y) XOR ((4294967295 - x) AND z)"

definition maj :: "int \<Rightarrow> int \<Rightarrow> int \<Rightarrow> int" where
  "maj x y z = (x AND y) XOR (x AND z) XOR (y AND z)"

text \<open>The message schedule; the list holds the most recent word first.\<close>

fun schedule :: "nat \<Rightarrow> int list \<Rightarrow> int list" where
  "schedule 0 w = w"
| "schedule (Suc n) w =
     schedule n (w32 (ssig1 (w ! 1) + w ! 6 + ssig0 (w ! 14) + w ! 15) # w)"

text \<open>One round on the eight working variables, and the rounds over the schedule.\<close>

definition roundStep :: "int \<Rightarrow> int \<Rightarrow> int list \<Rightarrow> int list" where
  "roundStep k w st =
     (let a = st ! 0; b = st ! 1; c = st ! 2; d = st ! 3;
          e = st ! 4; f = st ! 5; g = st ! 6; h = st ! 7;
          t1 = w32 (h + bsig1 e + ch e f g + k + w);
          t2 = w32 (bsig0 a + maj a b c)
      in [w32 (t1 + t2), a, b, c, w32 (d + t1), e, f, g])"

fun rounds :: "int list \<Rightarrow> int list \<Rightarrow> int list \<Rightarrow> int list" where
  "rounds [] ws st = st"
| "rounds (k # ks) ws st =
     (case ws of [] \<Rightarrow> st | w # ws' \<Rightarrow> rounds ks ws' (roundStep k w st))"

definition byteVal :: "char \<Rightarrow> int" where
  "byteVal c = of_char c"

definition be32 :: "bytes \<Rightarrow> int" where
  "be32 bs = foldl (\<lambda>acc b. acc * 256 + byteVal b) 0 bs"

fun wordsOfBlock :: "nat \<Rightarrow> bytes \<Rightarrow> int list" where
  "wordsOfBlock 0 bs = []"
| "wordsOfBlock (Suc n) bs = be32 (take 4 bs) # wordsOfBlock n (drop 4 bs)"

definition compress :: "int list \<Rightarrow> bytes \<Rightarrow> int list" where
  "compress st block =
     (let w = rev (schedule 48 (rev (wordsOfBlock 16 block)))
      in map2 (\<lambda>x y. w32 (x + y)) st (rounds sha256_K w st))"

fun compressBlocks :: "nat \<Rightarrow> int list \<Rightarrow> bytes \<Rightarrow> int list" where
  "compressBlocks 0 st bs = st"
| "compressBlocks (Suc n) st bs = compressBlocks n (compress st (take 64 bs)) (drop 64 bs)"

definition byteOf :: "int \<Rightarrow> char" where
  "byteOf x = char_of (x mod 256)"

text \<open>The big-endian bytes of a number, \<open>n\<close> of them.\<close>

fun beBytes :: "nat \<Rightarrow> int \<Rightarrow> bytes" where
  "beBytes 0 x = []"
| "beBytes (Suc n) x = beBytes n (x div 256) @ [byteOf x]"

definition sha256_pad :: "bytes \<Rightarrow> bytes" where
  "sha256_pad m =
     m @ [CHR 0x80] @ replicate ((119 - length m mod 64) mod 64) (CHR 0x00)
       @ beBytes 8 (8 * int (length m))"

definition sha256_ref :: "bytes \<Rightarrow> bytes" where
  "sha256_ref m =
     (let p = sha256_pad m
      in concat (map (beBytes 4) (compressBlocks (length p div 64) sha256_H0 p)))"

subsection \<open>The Bech32 codec\<close>

definition ALPHABET :: string where
  "ALPHABET = ''qpzry9x8gf2tvdw0s3jn54khce6mua7l''"

definition polymodStep :: "int \<Rightarrow> int" where
  "polymodStep pre =
     (let b = pre div 2 ^ 25
      in ((pre mod 2 ^ 25) * 32)
           XOR (if odd b then 996825010 else 0)
           XOR (if odd (b div 2) then 642813549 else 0)
           XOR (if odd (b div 4) then 513874426 else 0)
           XOR (if odd (b div 8) then 1027748829 else 0)
           XOR (if odd (b div 16) then 705979059 else 0))"

fun prefixChkHigh :: "string \<Rightarrow> int \<Rightarrow> int" where
  "prefixChkHigh [] chk = chk"
| "prefixChkHigh (c # cs) chk = prefixChkHigh cs (polymodStep chk XOR (byteVal c div 32))"

fun prefixChkLow :: "string \<Rightarrow> int \<Rightarrow> int" where
  "prefixChkLow [] chk = chk"
| "prefixChkLow (c # cs) chk = prefixChkLow cs (polymodStep chk XOR (byteVal c mod 32))"

definition prefixChk :: "string \<Rightarrow> jsError + int" where
  "prefixChk pfx =
     (if list_all (\<lambda>c. 33 \<le> byteVal c \<and> byteVal c \<le> 126) pfx
      then Inr (prefixChkLow pfx (polymodStep (prefixChkHigh pfx 1)))
      else Inl (Error (''Invalid prefix ('' @ pfx @ '')'')))"

text \<open>
  \<open>convert\<close>: regrouping bits. The state is the accumulator (kept to 32 bits, as the
  shifts of JavaScript do) and the number of bits it holds that are not yet written. The
  inner loop writes a group while enough bits are held; the codec calls it with groups
  of five and of eight bits.
\<close>

fun convertFlush :: "nat \<Rightarrow> int \<Rightarrow> nat \<Rightarrow> int list \<Rightarrow> nat \<times> int list" where
  "convertFlush outBits val bits acc =
     (if 0 < outBits \<and> outBits \<le> bits then
        convertFlush outBits val (bits - outBits)
          (acc @ [(val div 2 ^ (bits - outBits)) mod 2 ^ outBits])
      else (bits, acc))"

declare convertFlush.simps [simp del]

fun convertLoop :: "nat \<Rightarrow> nat \<Rightarrow> int list \<Rightarrow> int \<Rightarrow> nat \<Rightarrow> int list \<Rightarrow> int \<times> nat \<times> int list" where
  "convertLoop inBits outBits [] val bits acc = (val, bits, acc)"
| "convertLoop inBits outBits (d # ds) val bits acc =
     (let val' = w32 (val * 2 ^ inBits) OR d;
          (bits', acc') = convertFlush outBits val' (bits + inBits) acc
      in convertLoop inBits outBits ds val' bits' acc')"

definition convert :: "int list \<Rightarrow> nat \<Rightarrow> nat \<Rightarrow> bool \<Rightarrow> string + int list" where
  "convert data inBits outBits pad =
     (case convertLoop inBits outBits data 0 0 [] of (val, bits, acc) \<Rightarrow>
        if pad then
          Inr (if bits > 0 then acc @ [(val * 2 ^ (outBits - bits)) mod 2 ^ outBits] else acc)
        else if bits \<ge> inBits then Inl ''Excess padding''
        else if (val * 2 ^ (outBits - bits)) mod 2 ^ outBits \<noteq> 0 then Inl ''Non-zero padding''
        else Inr acc)"

definition toWords_ref :: "bytes \<Rightarrow> int list" where
  "toWords_ref bs = (case convert (map byteVal bs) 8 5 True of Inr ws \<Rightarrow> ws | Inl e \<Rightarrow> [])"

definition fromWords_ref :: "int list \<Rightarrow> jsError + bytes" where
  "fromWords_ref ws = (case convert ws 5 8 False of Inr bs \<Rightarrow> Inr (map byteOf bs) | Inl e \<Rightarrow> Inl (Error e))"

definition lowerChar :: "char \<Rightarrow> char" where
  "lowerChar c = (let n = (of_char c :: nat) in if 65 \<le> n \<and> n \<le> 90 then char_of (n + 32) else c)"

definition upperChar :: "char \<Rightarrow> char" where
  "upperChar c = (let n = (of_char c :: nat) in if 97 \<le> n \<and> n \<le> 122 then char_of (n - 32) else c)"

fun encodeWords :: "int list \<Rightarrow> int \<Rightarrow> string \<Rightarrow> jsError + (int \<times> string)" where
  "encodeWords [] chk result = Inr (chk, result)"
| "encodeWords (x # xs) chk result =
     (if x div 32 \<noteq> 0 then Inl (Error ''Non 5-bit word'')
      else encodeWords xs (polymodStep chk XOR x) (result @ [ALPHABET ! nat x]))"

text \<open>Six more steps close the checksum; its six groups of five bits are written last.\<close>

fun polymodSteps :: "nat \<Rightarrow> int \<Rightarrow> int" where
  "polymodSteps 0 chk = chk"
| "polymodSteps (Suc n) chk = polymodSteps n (polymodStep chk)"

fun checksumChars :: "nat \<Rightarrow> int \<Rightarrow> string" where
  "checksumChars 0 chk = []"
| "checksumChars (Suc n) chk = ALPHABET ! nat ((chk div 32 ^ n) mod 32) # checksumChars n chk"

definition encode_ref :: "string \<Rightarrow> int list \<Rightarrow> jsError + string" where
  "encode_ref pfx ws =
     (if length pfx + 7 + length ws > 90 then Inl (TypeError ''Exceeds length limit'')
      else let pfx' = map lowerChar pfx in
        case prefixChk pfx' of
          Inl e \<Rightarrow> Inl e
        | Inr chk0 \<Rightarrow>
            (case encodeWords ws chk0 (pfx' @ ''1'') of
               Inl e \<Rightarrow> Inl e
             | Inr (chk1, result) \<Rightarrow>
                 Inr (result @ checksumChars 6 (polymodSteps 6 chk1 XOR 1))))"

fun indexOf :: "char \<Rightarrow> string \<Rightarrow> int option" where
  "indexOf x [] = None"
| "indexOf x (y # ys) = (if x = y then Some 0 else map_option (\<lambda>i. i + 1) (indexOf x ys))"

fun decodeWords :: "string \<Rightarrow> int \<Rightarrow> int list \<Rightarrow> jsError + (int \<times> int list)" where
  "decodeWords [] chk ws = Inr (chk, ws)"
| "decodeWords (c # cs) chk ws =
     (case indexOf c ALPHABET of
        None \<Rightarrow> Inl (Error (''Unknown character '' @ [c]))
      | Some v \<Rightarrow> decodeWords cs (polymodStep chk XOR v) (if 6 \<le> length cs then ws @ [v] else ws))"

fun lastIndexOf :: "char \<Rightarrow> string \<Rightarrow> nat option" where
  "lastIndexOf d [] = None"
| "lastIndexOf d (c # cs) =
     (case lastIndexOf d cs of Some i \<Rightarrow> Some (Suc i) | None \<Rightarrow> if c = d then Some 0 else None)"

definition decode_ref :: "string \<Rightarrow> jsError + (string \<times> int list)" where
  "decode_ref str =
     (if length str < 8 then Inl (Error (str @ '' too short''))
      else if length str > 90 then Inl (Error ''Exceeds length limit'')
      else let lowered = map lowerChar str; uppered = map upperChar str in
        if str \<noteq> lowered \<and> str \<noteq> uppered then Inl (Error (''Mixed-case string '' @ str))
        else (case lastIndexOf CHR ''1'' lowered of
                None \<Rightarrow> Inl (Error (''No separator character for '' @ lowered))
              | Some split \<Rightarrow>
                  if split = 0 then Inl (Error (''Missing prefix for '' @ lowered))
                  else let pfx = take split lowered; wordChars = drop (split + 1) lowered in
                    if length wordChars < 6 then Inl (Error ''Data too short'')
                    else (case prefixChk pfx of
                            Inl e \<Rightarrow> Inl e
                          | Inr chk0 \<Rightarrow>
                              (case decodeWords wordChars chk0 [] of
                                 Inl e \<Rightarrow> Inl e
                               | Inr (chk, ws) \<Rightarrow>
                                   if chk \<noteq> 1 then Inl (Error (''Invalid checksum for '' @ lowered))
                                   else Inr (pfx, ws)))))"

definition referencePlatform :: platform where
  "referencePlatform =
     \<lparr>sha256 = sha256_ref, toWords = toWords_ref, fromWords = fromWords_ref,
      encode = encode_ref, decode = decode_ref,
      toUpperCase = map upperChar, toLowerCase = map lowerChar\<rparr>"

section \<open>Notions used to state and prove the properties\<close>

text \<open>
  \<open>propOf\<close> and \<open>inOp\<close> are the property read and the \<open>in\<close> test where they do not throw.
  \<open>extends s0 m\<close> says that the step \<open>m\<close> returns, with a list that begins with \<open>s0\<close>;
  \<open>reaches x m\<close> says that it returns, with a list that contains \<open>x\<close>.
\<close>

definition propOf :: "jsval \<Rightarrow> string \<Rightarrow> jsval" where
  "propOf v k = (case getProp v k of Some y \<Rightarrow> y | None \<Rightarrow> JUndefined)"

definition inOp :: "string \<Rightarrow> jsval \<Rightarrow> bool" where
  "inOp k v = (case hasProp k v of Some b \<Rightarrow> b | None \<Rightarrow> False)"

definition extends :: "'a list \<Rightarrow> 'a list option \<Rightarrow> bool" where
  "extends s0 m = (case m of None \<Rightarrow> False | Some r \<Rightarrow> prefix s0 r)"

definition reaches :: "'a \<Rightarrow> 'a list option \<Rightarrow> bool" where
  "reaches x m = (case m of None \<Rightarrow> False | Some r \<Rightarrow> x \<in> set r)"

definition isError :: "ValidationIssue \<Rightarrow> bool" where
  "isError i = (severity i = SevError)"

text \<open>The input of the specification's example, and the value it denotes.\<close>

definition exampleTransactionJson :: string where
  "exampleTransactionJson =
     ''{'' @ dq @ ''messages'' @ dq @ '':[{'' @ dq @ ''typeUrl'' @ dq @ '':'' @ dq @ ''T'' @ dq
       @ '','' @ dq @ ''value'' @ dq @ '':{'' @ dq @ ''amount'' @ dq @ '':5}}]}''"

definition exampleTransaction :: jsval where
  "exampleTransaction =
     JObject [(''messages'', JArray [JObject [(''typeUrl'', JString ''T''),
       (''value'', JObject [(''amount'', JNumber (Finite 5))])]])]"


text \<open>The top-level \<open>messages\<close> array of a parsed document, if it is an object that has one.\<close>

definition messagesArray :: "jsval \<Rightarrow> jsval list option" where
  "messagesArray tx =
     (case tx of
        JObject kvs \<Rightarrow> (case map_of kvs ''messages'' of Some (JArray msgs) \<Rightarrow> Some msgs | _ \<Rightarrow> None)
      | _ \<Rightarrow> None)"




text \<open>\<open>sameErrors s0 m\<close>: the step \<open>m\<close> returns, with the same error issues as \<open>s0\<close>.\<close>

definition sameErrors :: "ValidationIssue list \<Rightarrow> ValidationIssue list option \<Rightarrow> bool" where
  "sameErrors s0 m = (case m of None \<Rightarrow> False | Some r \<Rightarrow> filter isError r = filter isError s0)"










text \<open>
  The hash of the specification: \<open>H(tag, payload) = SHA-256(SHA-256(tag) || payload)\<close>.
\<close>

definition H :: "platform \<Rightarrow> bytes \<Rightarrow> bytes \<Rightarrow> bytes" where
  "H lib tag payload = sha256 lib (sha256 lib tag @ payload)"


text \<open>
  Addresses used as concrete inputs: the 20 bytes \<open>01 02 ... 14\<close> in both formats, the
  same Bech32 text in upper case, the same payload under the human-readable part
  \<open>bb1x\<close> and under \<open>cosmos\<close>, and a module address with a payload of 32 bytes.
\<close>

definition exampleEthAddress :: string where
  "exampleEthAddress = ''0x0102030405060708090A0B0C0D0E0F1011121314''"

definition exampleBech32Address :: string where
  "exampleBech32Address = ''bb1qypqxpq9qcrsszg2pvxq6rs0zqg3yyc5ulyd6d''"

definition exampleBytes :: bytes where
  "exampleBytes = fromHex ''0102030405060708090a0b0c0d0e0f1011121314''"

definition exampleWords :: "int list" where
  "exampleWords =
     [0, 4, 1, 0, 6, 1, 0, 5, 0, 24, 3, 16, 16, 2, 8, 10, 1, 12, 6, 0, 26, 3, 16, 15, 2, 0, 8, 17,
      4, 4, 24, 20]"



definition cosmosBech32Address :: string where
  "cosmosBech32Address = ''cosmos1qypqxpq9qcrsszg2pvxq6rs0zqg3yyc5lzv7xu''"

definition moduleBech32Address :: string where
  "moduleBech32Address = ''bb194c3vs4hy6cygqtz0j5lhtpj7hy9xra3jq7vfkczykr30ys6fzqsj0ehxy''"

definition moduleBytes :: bytes where
  "moduleBytes = fromHex ''2d711642b726b04401627ca9fbac32f5c8530fb1903cc4db02258717921a4881''"

text \<open>A table as the registry builds it, cut down to the entry of USDC.\<close>

definition exampleTokenMap :: tokenMap where
  "exampleTokenMap =
     [(''USDC'',
       \<lparr>tokenSymbol = ''USDC'',
        ibcDenom = ''ibc/F082B65C88E4B6D5EF1DB243CDA1D331D002759E938A0F5CD3FFDC5D53B3E349'',
        tokenDecimals = ''6'',
        backingAddress = ''bb1a7m8394e8u98w8uwle49dds8caexmcvqwgcadtp264gvt28uygmsdlgm0a'',
        displayName = ''USDC''\<rparr>)]"

text \<open>
  The nesting depth of a value: the number of nested calls that a walk over it makes. A
  walk returns if and only if the stack has room for that many.
\<close>

fun nesting :: "jsval \<Rightarrow> nat"
  and nestingItems :: "jsval list \<Rightarrow> nat"
  and nestingEntries :: "(string \<times> jsval) list \<Rightarrow> nat"
where
  "nesting (JArray xs) = Suc (nestingItems xs)"
| "nesting (JObject kvs) = Suc (nestingEntries kvs)"
| "nesting JNull = 1"
| "nesting JUndefined = 1"
| "nesting (JBool b) = 1"
| "nesting (JNumber n) = 1"
| "nesting (JString s) = 1"
| "nestingItems [] = 0"
| "nestingItems (x # xs) = max (nesting x) (nestingItems xs)"
| "nestingEntries [] = 0"
| "nestingEntries ((k, v) # kvs) = max (nesting v) (nestingEntries kvs)"

text \<open>
  A deeply nested document: the text \<open>{"messages":[[...[]...]]}\<close> with \<open>n + 1\<close> pairs of
  brackets, the value it denotes, and a \<open>JSON.parse\<close> that reads this text.
\<close>

fun nestedArrays :: "nat \<Rightarrow> jsval" where
  "nestedArrays 0 = JArray []"
| "nestedArrays (Suc n) = JArray [nestedArrays n]"

definition deepDocument :: "nat \<Rightarrow> jsval" where
  "deepDocument n = JObject [(''messages'', nestedArrays n)]"

definition deepDocumentJson :: "nat \<Rightarrow> string" where
  "deepDocumentJson n =
     ''{'' @ dq @ ''messages'' @ dq @ '':'' @ replicate (Suc n) CHR ''['' @ replicate (Suc n) CHR '']'' @ ''}''"

definition deepDocumentParse :: "nat \<Rightarrow> string \<Rightarrow> string + jsval" where
  "deepDocumentParse n s =
     (if s = deepDocumentJson n then Inr (deepDocument n) else Inl ''Unexpected token'')"

definition printZero :: "jsnumber \<Rightarrow> string" where
  "printZero n = ''0''"

text \<open>The elements of an array.\<close>

definition elems :: "jsval \<Rightarrow> jsval list" where
  "elems v = (case v of JArray xs \<Rightarrow> xs | _ \<Rightarrow> [])"

text \<open>
  \<open>agree Q s m m'\<close>: of two runs of a step, one started with the issues \<open>s\<close> in front of
  the other's, both return, the first gives \<open>s\<close> in front of what the second gives, and
  every issue that the second gives satisfies \<open>Q\<close>. \<open>atPath p xs\<close>: the issues of \<open>xs\<close> whose
  path is \<open>p\<close>.
\<close>

definition agree ::
    "(ValidationIssue \<Rightarrow> bool) \<Rightarrow> ValidationIssue list \<Rightarrow> ValidationIssue list option
       \<Rightarrow> ValidationIssue list option \<Rightarrow> bool" where
  "agree Q s m m' =
     (case m' of
        None \<Rightarrow> False
      | Some t \<Rightarrow> list_all Q t \<and> m = Some (s @ t))"

definition atPath :: "string \<Rightarrow> ValidationIssue list \<Rightarrow> ValidationIssue list" where
  "atPath p xs = filter (\<lambda>i. path i = Some p) xs"

section \<open>Properties of the validator\<close>

subsection \<open>Reads that do not throw\<close>

lemma getProp_truthy [simp]: "truthy v \<Longrightarrow> getProp v k = Some (propOf v k)"
  by (cases v) (auto simp: propOf_def)

lemma hasProp_object [simp]: "truthy v \<Longrightarrow> typeof v = ''object'' \<Longrightarrow> hasProp k v = Some (inOp k v)"
  by (cases v) (auto simp: inOp_def)

lemma those_getProp: "truthy v \<Longrightarrow> those (map (getProp v) ks) = Some (map (propOf v) ks)"
  by (induction ks) auto

lemma case_option_bind: "(case m of None \<Rightarrow> None | Some x \<Rightarrow> g x) = m \<bind> g"
  by (cases m) auto

subsection \<open>Every step returns and only appends issues\<close>

lemma extends_Some [simp]: "extends s0 (Some r) = prefix s0 r"
  by (simp add: extends_def)

lemma extends_None [simp]: "\<not> extends s0 None"
  by (simp add: extends_def)

lemma extendsE:
  assumes "extends s0 m"
  obtains r where "m = Some r" and "prefix s0 r"
  using assms by (cases m) (auto simp: extends_def)

lemma extends_bind:
  assumes "extends s0 m" and "\<And>r. m = Some r \<Longrightarrow> prefix s0 r \<Longrightarrow> extends s0 (g r)"
  shows "extends s0 (m \<bind> g)"
proof -
  obtain r where r: "m = Some r" "prefix s0 r"
    using assms(1) by (rule extendsE)
  show ?thesis using assms(2) [OF r] r(1) by simp
qed

lemma prefix_snoc_weak [simp]: "prefix s0 s \<Longrightarrow> prefix s0 (s @ xs)"
  by (simp add: prefix_def) (metis append_assoc)

lemma forEachFrom_extends:
  assumes "\<And>x i s. prefix s0 s \<Longrightarrow> extends s0 (f x i s)"
  shows "prefix s0 s \<Longrightarrow> extends s0 (forEachFrom f xs i s)"
proof (induction xs arbitrary: i s)
  case Nil
  then show ?case by simp
next
  case (Cons x xs)
  obtain s1 where s1: "f x i s = Some s1" "prefix s0 s1"
    using assms [OF Cons.prems] by (rule extendsE)
  show ?case using s1 Cons.IH [of s1 "Suc i"] by simp
qed

lemma forEach_extends:
  "(\<And>x i s. prefix s0 s \<Longrightarrow> extends s0 (f x i s)) \<Longrightarrow> prefix s0 s \<Longrightarrow> extends s0 (forEach f xs s)"
  unfolding forEach_def by (rule forEachFrom_extends)

lemma validateOrderCalculationMethod_extends:
  "truthy oc \<Longrightarrow> prefix s0 iss \<Longrightarrow> extends s0 (validateOrderCalculationMethod oc p iss)"
  by (simp add: validateOrderCalculationMethod_def those_getProp Let_def)

lemma coinTransferCheck_extends: "prefix s0 iss \<Longrightarrow> extends s0 (coinTransferCheck p ct i iss)"
  by (simp add: coinTransferCheck_def Let_def)

lemma checkUintRangeFormat_extends: "prefix s0 iss \<Longrightarrow> extends s0 (checkUintRangeFormat obj p iss)"
  by (simp add: checkUintRangeFormat_def Let_def)

lemma validateSubscriptionApproval_extends:
  "truthy a \<Longrightarrow> prefix s0 iss \<Longrightarrow> extends s0 (validateSubscriptionApproval a p iss)"
  by (auto simp: validateSubscriptionApproval_def Let_def split: jsval.split
       intro!: extends_bind forEach_extends coinTransferCheck_extends validateOrderCalculationMethod_extends)

lemma listIdCheck_extends:
  "truthy a \<Longrightarrow> typeof a = ''object'' \<Longrightarrow> prefix s0 iss \<Longrightarrow> extends s0 (listIdCheck a ap field i iss)"
  by (auto simp: listIdCheck_def split: jsval.split)

lemma approvalCheck_extends: "prefix s0 iss \<Longrightarrow> extends s0 (approvalCheck isSub p a i iss)"
  by (auto simp: approvalCheck_def Let_def split: jsval.split
       intro!: extends_bind forEach_extends listIdCheck_extends validateSubscriptionApproval_extends)

lemma validateApprovals_extends: "prefix s0 iss \<Longrightarrow> extends s0 (validateApprovals as p iss sts)"
  by (simp add: validateApprovals_def Let_def forEach_extends approvalCheck_extends)

lemma tokenMetadataCheck_extends: "prefix s0 iss \<Longrightarrow> extends s0 (tokenMetadataCheck p e i iss)"
  by (auto simp: tokenMetadataCheck_def Let_def split: jsval.split)

lemma validateTokenMetadata_extends: "prefix s0 iss \<Longrightarrow> extends s0 (validateTokenMetadata md p iss)"
  by (simp add: validateTokenMetadata_def forEach_extends tokenMetadataCheck_extends)

lemma tokenPermCheck_extends: "prefix s0 iss \<Longrightarrow> extends s0 (tokenPermCheck p field perm i iss)"
  by (auto simp: tokenPermCheck_def Let_def split: jsval.split)

lemma tokenPermFieldCheck_extends:
  "truthy ps \<Longrightarrow> typeof ps = ''object'' \<Longrightarrow> prefix s0 iss \<Longrightarrow>
   extends s0 (tokenPermFieldCheck ps p field i iss)"
  by (auto simp: tokenPermFieldCheck_def split: jsval.split
       intro!: forEach_extends tokenPermCheck_extends)

lemma emptyPermCheck_extends: "prefix s0 iss \<Longrightarrow> extends s0 (emptyPermCheck p e i iss)"
  by (auto simp: emptyPermCheck_def split: jsval.split list.split prod.split)

lemma validatePermissions_extends: "prefix s0 iss \<Longrightarrow> extends s0 (validatePermissions ps p iss)"
  by (auto simp: validatePermissions_def
       intro!: extends_bind forEach_extends tokenPermFieldCheck_extends emptyPermCheck_extends)

lemma transferCheck_extends: "prefix s0 iss \<Longrightarrow> extends s0 (transferCheck mp t i iss)"
  by (auto simp: transferCheck_def Let_def)

lemma msgTransferTokensCheck_extends:
  "truthy v \<Longrightarrow> prefix s0 iss \<Longrightarrow> extends s0 (msgTransferTokensCheck v mp iss)"
  by (auto simp: msgTransferTokensCheck_def Let_def split: jsval.split
       intro!: forEach_extends transferCheck_extends)

lemma universalCreatorCheck_extends:
  "truthy v \<Longrightarrow> prefix s0 iss \<Longrightarrow> extends s0 (universalCreatorCheck v mp iss)"
  by (auto simp: universalCreatorCheck_def split: jsval.split)

lemma subscriptionTokenIdsCheck_extends:
  "truthy v \<Longrightarrow> prefix s0 iss \<Longrightarrow> extends s0 (subscriptionTokenIdsCheck v mp iss)"
  by (auto simp: subscriptionTokenIdsCheck_def split: jsval.split list.split)

lemma msgUniversalUpdateCollectionCheck_extends:
  assumes "truthy v" and "typeof v = ''object''" and "prefix s0 iss"
  shows "extends s0 (msgUniversalUpdateCollectionCheck v mp iss)"
  unfolding msgUniversalUpdateCollectionCheck_def Let_def
  using assms
  apply (simp split del: if_split)
  apply (rule extends_bind)
   apply (rule universalCreatorCheck_extends; assumption)
  apply (rule extends_bind)
   apply (auto split: jsval.split intro!: validateApprovals_extends)[1]
  apply (rule extends_bind)
   apply (rule subscriptionTokenIdsCheck_extends; assumption)
  apply (rule extends_bind)
   apply (auto split: jsval.split intro!: validateTokenMetadata_extends)[1]
  apply (auto intro!: validatePermissions_extends)
  done

lemma messageCheck_extends: "prefix s0 iss \<Longrightarrow> extends s0 (messageCheck m i iss)"
  by (auto simp: messageCheck_def Let_def
       intro!: extends_bind msgUniversalUpdateCollectionCheck_extends msgTransferTokensCheck_extends)

section \<open>Properties of the address functions\<close>

subsection \<open>Hexadecimal text\<close>

lemma hexDigits_table:
  "list_all (\<lambda>n. (of_char (hexDigits ! n) :: nat) = (if n < 10 then 48 + n else 87 + n)) [0..<16]"
  by code_simp

lemma of_char_hexDigit:
  assumes "n < 16"
  shows "(of_char (hexDigits ! n) :: nat) = (if n < 10 then 48 + n else 87 + n)"
  using hexDigits_table assms unfolding list_all_iff by simp

lemma hexVal_hexDigit: "n < 16 \<Longrightarrow> hexVal (hexDigits ! n) = Some n"
  by (simp add: hexVal_def Let_def of_char_hexDigit)

lemma of_char_nat_less: "(of_char c :: nat) < 256"
  by (cases c) simp

lemma fromHex_byteToHex: "fromHex (byteToHex b @ rest) = b # fromHex rest"
proof -
  let ?n = "of_char b :: nat"
  have d: "?n div 16 < 16" and m: "?n mod 16 < 16"
    using of_char_nat_less [of b] by presburger+
  have "char_of (16 * (?n div 16) + ?n mod 16) = b" by simp
  then show ?thesis
    by (simp add: byteToHex_def hexVal_hexDigit [OF d] hexVal_hexDigit [OF m])
qed

lemma fromHex_toHex [simp]: "fromHex (toHex bs) = bs"
  by (induction bs) (simp_all add: toHex_def fromHex_byteToHex)

lemma length_toHex [simp]: "length (toHex bs) = 2 * length bs"
  by (induction bs) (simp_all add: toHex_def byteToHex_def)





lemma lowerChar_idem [simp]: "lowerChar (lowerChar c) = lowerChar c"
proof -
  have "(of_char c :: nat) < 256" by (rule of_char_nat_less)
  then show ?thesis by (simp add: lowerChar_def Let_def of_char_of)
qed

subsection \<open>The issues a step records do not depend on the issues recorded before\<close>

lemma agree_Some [simp]: "agree Q s (Some a) (Some b) = (list_all Q b \<and> a = s @ b)"
  by (auto simp: agree_def)

lemma agree_None [simp]: "\<not> agree Q s m None"
  by (simp add: agree_def)

lemma agreeE:
  assumes "agree Q s m m'"
  obtains t where "m' = Some t" and "m = Some (s @ t)" and "list_all Q t"
  using assms by (cases m') (auto simp: agree_def)

lemma agree_bind:
  assumes "agree Q s m m'"
      and "\<And>t. list_all Q t \<Longrightarrow> m' = Some t \<Longrightarrow> agree Q s (g (s @ t)) (g' t)"
  shows "agree Q s (m \<bind> g) (m' \<bind> g')"
proof -
  obtain t where t: "m' = Some t" "m = Some (s @ t)" "list_all Q t"
    using assms(1) by (rule agreeE)
  show ?thesis using assms(2) [OF t(3,1)] t(1,2) by simp
qed

lemma agree_the:
  assumes "agree Q s m m'"
  shows "m = Some (s @ the m')" and "m' = Some (the m')" and "list_all Q (the m')"
  using assms by (auto elim!: agreeE)

lemma forEachFrom_agree:
  assumes "\<And>x i t. list_all Q t \<Longrightarrow> agree Q s (f x i (s @ t)) (f x i t)"
  shows "list_all Q t \<Longrightarrow> agree Q s (forEachFrom f xs i (s @ t)) (forEachFrom f xs i t)"
proof (induction xs arbitrary: i t)
  case Nil
  then show ?case by simp
next
  case (Cons x xs)
  obtain t1 where t1: "f x i t = Some t1" "f x i (s @ t) = Some (s @ t1)" "list_all Q t1"
    using assms [OF Cons.prems] by (rule agreeE)
  show ?case using t1 Cons.IH [OF t1(3), of "Suc i"] by simp
qed

lemma forEach_agree:
  "(\<And>x i t. list_all Q t \<Longrightarrow> agree Q s (f x i (s @ t)) (f x i t)) \<Longrightarrow> list_all Q t \<Longrightarrow>
   agree Q s (forEach f xs (s @ t)) (forEach f xs t)"
  unfolding forEach_def by (rule forEachFrom_agree)

lemma nesting_neq_0 [simp]: "nesting v \<noteq> 0"
  by (cases v) auto

lemma checkNumbersAreStrings_agree:
  "nesting v \<le> room \<Longrightarrow> \<forall>sev msg rest. Q (issue sev msg (Some (p @ rest))) \<Longrightarrow> list_all Q t \<Longrightarrow>
     agree Q s (checkNumbersAreStrings room f v p (s @ t)) (checkNumbersAreStrings room f v p t)"
  "nestingItems xs \<le> room \<Longrightarrow> \<forall>sev msg rest. Q (issue sev msg (Some (p @ ''['' @ rest))) \<Longrightarrow>
     list_all Q t \<Longrightarrow>
     agree Q s (checkNumbersItems room f xs p i (s @ t)) (checkNumbersItems room f xs p i t)"
  "nestingEntries kvs \<le> room \<Longrightarrow> \<forall>sev msg rest. Q (issue sev msg (Some (p @ ''.'' @ rest))) \<Longrightarrow>
     list_all Q t \<Longrightarrow>
     agree Q s (checkNumbersEntries room f kvs p (s @ t)) (checkNumbersEntries room f kvs p t)"
proof (induction room f v p t and room f xs p i t and room f kvs p t
        rule: checkNumbersAreStrings_checkNumbersItems_checkNumbersEntries.induct)
  case (4 room numToString n p iss)
  then show ?case using "4.prems"(2) [rule_format, of _ _ "[]"] by simp
next
  case (10 room numToString x xs p i iss)
  have "nesting x \<le> room" using "10.prems"(1) by simp
  moreover have "\<forall>sev msg rest. Q (issue sev msg (Some ((p @ ''['' @ showNat i @ '']'') @ rest)))"
    using "10.prems"(2) by simp
  ultimately have "agree Q s
          (checkNumbersAreStrings room numToString x (p @ ''['' @ showNat i @ '']'') (s @ iss))
          (checkNumbersAreStrings room numToString x (p @ ''['' @ showNat i @ '']'') iss)"
    using "10.prems"(3) by (rule "10.IH"(1))
  then obtain t1 where t1:
      "checkNumbersAreStrings room numToString x (p @ ''['' @ showNat i @ '']'') iss = Some t1"
      "checkNumbersAreStrings room numToString x (p @ ''['' @ showNat i @ '']'') (s @ iss) = Some (s @ t1)"
      "list_all Q t1"
    by (rule agreeE)
  have "agree Q s
          (checkNumbersItems room numToString xs p (Suc i) (s @ t1))
          (checkNumbersItems room numToString xs p (Suc i) t1)"
    using "10.prems"(1) by (intro "10.IH"(2) [OF t1(1) _ "10.prems"(2) t1(3)]) simp
  then show ?case using t1 by simp
next
  case (12 room numToString k v kvs p iss)
  have "nesting v \<le> room" using "12.prems"(1) by simp
  moreover have "\<forall>sev msg rest. Q (issue sev msg (Some ((p @ ''.'' @ k) @ rest)))"
    using "12.prems"(2) by simp
  ultimately have "agree Q s
          (checkNumbersAreStrings room numToString v (p @ ''.'' @ k) (s @ iss))
          (checkNumbersAreStrings room numToString v (p @ ''.'' @ k) iss)"
    using "12.prems"(3) by (rule "12.IH"(1))
  then obtain t1 where t1:
      "checkNumbersAreStrings room numToString v (p @ ''.'' @ k) iss = Some t1"
      "checkNumbersAreStrings room numToString v (p @ ''.'' @ k) (s @ iss) = Some (s @ t1)"
      "list_all Q t1"
    by (rule agreeE)
  have "agree Q s
          (checkNumbersEntries room numToString kvs p (s @ t1))
          (checkNumbersEntries room numToString kvs p t1)"
    using "12.prems"(1) by (intro "12.IH"(2) [OF t1(1) _ "12.prems"(2) t1(3)]) simp
  then show ?case using t1 by simp
qed simp_all

lemma checkUintRangeFormat_agree:
  assumes "\<And>sev msg rest. Q (issue sev msg (Some (p @ rest)))"
  shows "list_all Q t \<Longrightarrow>
   agree Q s (checkUintRangeFormat obj p (s @ t)) (checkUintRangeFormat obj p t)"
  using assms assms [of _ _ "[]"] by (simp add: checkUintRangeFormat_def Let_def)

lemma findAndValidateUintRanges_agree:
  "nesting v \<le> room \<Longrightarrow> \<forall>sev msg rest. Q (issue sev msg (Some (p @ rest))) \<Longrightarrow> list_all Q t \<Longrightarrow>
     agree Q s (findAndValidateUintRanges room v p (s @ t)) (findAndValidateUintRanges room v p t)"
  "nestingItems xs \<le> room \<Longrightarrow> \<forall>sev msg rest. Q (issue sev msg (Some (p @ ''['' @ rest))) \<Longrightarrow>
     list_all Q t \<Longrightarrow>
     agree Q s (findRangesItems room xs p i (s @ t)) (findRangesItems room xs p i t)"
  "nestingEntries kvs \<le> room \<Longrightarrow> \<forall>sev msg rest. Q (issue sev msg (Some (p @ ''.'' @ rest))) \<Longrightarrow>
     list_all Q t \<Longrightarrow>
     agree Q s (findRangesEntries room kvs p (s @ t)) (findRangesEntries room kvs p t)"
proof (induction room v p t and room xs p i t and room kvs p t
        rule: findAndValidateUintRanges_findRangesItems_findRangesEntries.induct)
  case (3 room kvs p iss)
  have "agree Q s (checkUintRangeFormat (JObject kvs) p (s @ iss))
          (checkUintRangeFormat (JObject kvs) p iss)"
    using "3.prems"(2,3) by (intro checkUintRangeFormat_agree) simp_all
  then obtain t1 where t1:
      "checkUintRangeFormat (JObject kvs) p iss = Some t1"
      "checkUintRangeFormat (JObject kvs) p (s @ iss) = Some (s @ t1)"
      "list_all Q t1"
    by (rule agreeE)
  have "\<forall>sev msg rest. Q (issue sev msg (Some (p @ ''.'' @ rest)))"
    using "3.prems"(2) by simp
  then have "agree Q s (findRangesEntries room kvs p (s @ t1)) (findRangesEntries room kvs p t1)"
    using "3.prems"(1) by (intro "3.IH" [OF t1(1) _ _ t1(3)]) simp_all
  then show ?case using t1 by simp
next
  case (10 room x xs p i iss)
  have "nesting x \<le> room" using "10.prems"(1) by simp
  moreover have "\<forall>sev msg rest. Q (issue sev msg (Some ((p @ ''['' @ showNat i @ '']'') @ rest)))"
    using "10.prems"(2) by simp
  ultimately have "agree Q s
          (findAndValidateUintRanges room x (p @ ''['' @ showNat i @ '']'') (s @ iss))
          (findAndValidateUintRanges room x (p @ ''['' @ showNat i @ '']'') iss)"
    using "10.prems"(3) by (rule "10.IH"(1))
  then obtain t1 where t1:
      "findAndValidateUintRanges room x (p @ ''['' @ showNat i @ '']'') iss = Some t1"
      "findAndValidateUintRanges room x (p @ ''['' @ showNat i @ '']'') (s @ iss) = Some (s @ t1)"
      "list_all Q t1"
    by (rule agreeE)
  have "agree Q s (findRangesItems room xs p (Suc i) (s @ t1)) (findRangesItems room xs p (Suc i) t1)"
    using "10.prems"(1) by (intro "10.IH"(2) [OF t1(1) _ "10.prems"(2) t1(3)]) simp
  then show ?case using t1 by simp
next
  case (12 room k v kvs p iss)
  have "nesting v \<le> room" using "12.prems"(1) by simp
  moreover have "\<forall>sev msg rest. Q (issue sev msg (Some ((p @ ''.'' @ k) @ rest)))"
    using "12.prems"(2) by simp
  ultimately have "agree Q s
          (findAndValidateUintRanges room v (p @ ''.'' @ k) (s @ iss))
          (findAndValidateUintRanges room v (p @ ''.'' @ k) iss)"
    using "12.prems"(3) by (rule "12.IH"(1))
  then obtain t1 where t1:
      "findAndValidateUintRanges room v (p @ ''.'' @ k) iss = Some t1"
      "findAndValidateUintRanges room v (p @ ''.'' @ k) (s @ iss) = Some (s @ t1)"
      "list_all Q t1"
    by (rule agreeE)
  have "agree Q s (findRangesEntries room kvs p (s @ t1)) (findRangesEntries room kvs p t1)"
    using "12.prems"(1) by (intro "12.IH"(2) [OF t1(1) _ "12.prems"(2) t1(3)]) simp
  then show ?case using t1 by simp
qed simp_all

text \<open>A walk over a value that nests deeper than the stack has room for throws.\<close>

lemma checkNumbersAreStrings_overflow:
  "room < nesting v \<Longrightarrow> checkNumbersAreStrings room f v p t = None"
  "room < nestingItems xs \<Longrightarrow> checkNumbersItems room f xs p i t = None"
  "room < nestingEntries kvs \<Longrightarrow> checkNumbersEntries room f kvs p t = None"
  by (induction room f v p t and room f xs p i t and room f kvs p t
        rule: checkNumbersAreStrings_checkNumbersItems_checkNumbersEntries.induct)
     (auto simp: less_max_iff_disj split: option.split)

lemma findAndValidateUintRanges_overflow:
  "room < nesting v \<Longrightarrow> findAndValidateUintRanges room v p t = None"
  "room < nestingItems xs \<Longrightarrow> findRangesItems room xs p i t = None"
  "room < nestingEntries kvs \<Longrightarrow> findRangesEntries room kvs p t = None"
  by (induction room v p t and room xs p i t and room kvs p t
        rule: findAndValidateUintRanges_findRangesItems_findRangesEntries.induct)
     (auto simp: less_max_iff_disj split: option.split)

lemma nesting_nestedArrays [simp]: "nesting (nestedArrays n) = Suc n"
  by (induction n) auto

lemma case_JArray_if:
  "case_jsval d d (\<lambda>b. d) (\<lambda>n. d) (\<lambda>s. d) f (\<lambda>kvs. d) v = (if isArray v then f (elems v) else d)"
  by (cases v) (auto simp: elems_def)

lemma isArray_elems: "isArray v \<Longrightarrow> v = JArray (elems v)"
  by (cases v) (auto simp: elems_def)

lemma agree_if:
  "(c \<Longrightarrow> agree Q s a b) \<Longrightarrow> (\<not> c \<Longrightarrow> agree Q s a' b') \<Longrightarrow>
   agree Q s (if c then a else a') (if c then b else b')"
  by simp

lemma validateOrderCalculationMethod_agree:
  assumes "\<And>sev msg. Q (issue sev msg (Some p))"
  shows "truthy oc \<Longrightarrow> list_all Q t \<Longrightarrow>
   agree Q s (validateOrderCalculationMethod oc p (s @ t)) (validateOrderCalculationMethod oc p t)"
  using assms by (simp add: validateOrderCalculationMethod_def those_getProp Let_def)

lemma coinTransferCheck_agree:
  assumes "\<And>sev msg rest. Q (issue sev msg (Some (p @ ''.approvalCriteria.coinTransfers['' @ rest)))"
  shows "list_all Q t \<Longrightarrow> agree Q s (coinTransferCheck p ct i (s @ t)) (coinTransferCheck p ct i t)"
  using assms by (simp add: coinTransferCheck_def Let_def)

lemma validateSubscriptionApproval_agree:
  assumes Q: "\<And>sev msg rest. Q (issue sev msg (Some (p @ ''.approvalCriteria.'' @ rest)))"
  shows "truthy a \<Longrightarrow> list_all Q t \<Longrightarrow>
   agree Q s (validateSubscriptionApproval a p (s @ t)) (validateSubscriptionApproval a p t)"
  unfolding validateSubscriptionApproval_def Let_def
  using Q
  apply (simp add: case_JArray_if split del: if_split)
  apply ((rule agree_if agree_bind forEach_agree coinTransferCheck_agree
            validateOrderCalculationMethod_agree
          | simp add: case_JArray_if split del: if_split | simp)+)
  done

lemma listIdCheck_agree:
  assumes "\<And>sev msg. Q (issue sev msg (Some (ap @ ''.'' @ field)))"
  shows "truthy a \<Longrightarrow> typeof a = ''object'' \<Longrightarrow> list_all Q t \<Longrightarrow>
   agree Q s (listIdCheck a ap field i (s @ t)) (listIdCheck a ap field i t)"
  using assms by (auto simp: listIdCheck_def split: jsval.split)

lemma approvalCheck_agree:
  assumes Q: "\<And>sev msg rest. Q (issue sev msg (Some (p @ ''['' @ showNat i @ '']'' @ rest)))"
  shows "list_all Q t \<Longrightarrow> agree Q s (approvalCheck isSub p a i (s @ t)) (approvalCheck isSub p a i t)"
  unfolding approvalCheck_def Let_def mintOverrideIssue_def
  using Q Q [of _ _ "[]"]
  apply (simp split del: if_split)
  apply ((rule agree_if agree_bind forEach_agree listIdCheck_agree validateSubscriptionApproval_agree
          | simp split del: if_split | simp split: jsval.split)+)
  done

lemma validateApprovals_agree:
  assumes "\<And>sev msg rest. Q (issue sev msg (Some (p @ ''['' @ rest)))"
  shows "list_all Q t \<Longrightarrow> agree Q s (validateApprovals as p (s @ t) sts) (validateApprovals as p t sts)"
  unfolding validateApprovals_def Let_def
  using assms by (intro forEach_agree approvalCheck_agree) simp_all

lemma tokenMetadataCheck_agree:
  assumes "\<And>sev msg rest. Q (issue sev msg (Some (p @ ''['' @ rest)))"
  shows "list_all Q t \<Longrightarrow> agree Q s (tokenMetadataCheck p e i (s @ t)) (tokenMetadataCheck p e i t)"
  using assms by (auto simp: tokenMetadataCheck_def Let_def split: jsval.split)

lemma validateTokenMetadata_agree:
  assumes "\<And>sev msg rest. Q (issue sev msg (Some (p @ ''['' @ rest)))"
  shows "list_all Q t \<Longrightarrow> agree Q s (validateTokenMetadata md p (s @ t)) (validateTokenMetadata md p t)"
  unfolding validateTokenMetadata_def
  using assms by (intro forEach_agree tokenMetadataCheck_agree) simp_all

lemma tokenPermCheck_agree:
  assumes "\<And>sev msg rest. Q (issue sev msg (Some (p @ ''.'' @ rest)))"
  shows "list_all Q t \<Longrightarrow> agree Q s (tokenPermCheck p field perm i (s @ t)) (tokenPermCheck p field perm i t)"
  using assms by (auto simp: tokenPermCheck_def Let_def split: jsval.split)

lemma tokenPermFieldCheck_agree:
  assumes "\<And>sev msg rest. Q (issue sev msg (Some (p @ ''.'' @ rest)))"
  shows "truthy ps \<Longrightarrow> typeof ps = ''object'' \<Longrightarrow> list_all Q t \<Longrightarrow>
   agree Q s (tokenPermFieldCheck ps p field i (s @ t)) (tokenPermFieldCheck ps p field i t)"
  using assms
  by (auto simp: tokenPermFieldCheck_def split: jsval.split intro!: forEach_agree tokenPermCheck_agree)

lemma emptyPermCheck_agree:
  assumes "\<And>sev msg rest. Q (issue sev msg (Some (p @ ''.'' @ rest)))"
  shows "list_all Q t \<Longrightarrow> agree Q s (emptyPermCheck p e i (s @ t)) (emptyPermCheck p e i t)"
  using assms by (auto simp: emptyPermCheck_def split: jsval.split list.split prod.split)

lemma validatePermissions_agree:
  assumes "\<And>sev msg rest. Q (issue sev msg (Some (p @ ''.'' @ rest)))"
  shows "list_all Q t \<Longrightarrow> agree Q s (validatePermissions ps p (s @ t)) (validatePermissions ps p t)"
  using assms
  by (auto simp: validatePermissions_def
       intro!: agree_bind forEach_agree tokenPermFieldCheck_agree emptyPermCheck_agree)

lemma transferCheck_agree:
  assumes "\<And>sev msg rest. Q (issue sev msg (Some (mp @ ''.value.transfers['' @ rest)))"
  shows "list_all Q t \<Longrightarrow> agree Q s (transferCheck mp tr i (s @ t)) (transferCheck mp tr i t)"
  using assms by (auto simp: transferCheck_def Let_def)

lemma msgTransferTokensCheck_agree:
  assumes "\<And>sev msg rest. Q (issue sev msg (Some (mp @ ''.value.'' @ rest)))"
  shows "truthy v \<Longrightarrow> list_all Q t \<Longrightarrow>
   agree Q s (msgTransferTokensCheck v mp (s @ t)) (msgTransferTokensCheck v mp t)"
  using assms
  by (auto simp: msgTransferTokensCheck_def Let_def split: jsval.split
       intro!: forEach_agree transferCheck_agree)

lemma universalCreatorCheck_agree:
  assumes "\<And>sev msg. Q (issue sev msg (Some (mp @ ''.value.creator'')))"
  shows "truthy v \<Longrightarrow> list_all Q t \<Longrightarrow>
   agree Q s (universalCreatorCheck v mp (s @ t)) (universalCreatorCheck v mp t)"
  using assms by (auto simp: universalCreatorCheck_def split: jsval.split)

lemma subscriptionTokenIdsCheck_agree:
  assumes "\<And>sev msg. Q (issue sev msg (Some (mp @ ''.value.validTokenIds'')))"
  shows "truthy v \<Longrightarrow> list_all Q t \<Longrightarrow>
   agree Q s (subscriptionTokenIdsCheck v mp (s @ t)) (subscriptionTokenIdsCheck v mp t)"
  using assms by (auto simp: subscriptionTokenIdsCheck_def split: jsval.split list.split)

lemma msgUniversalUpdateCollectionCheck_agree:
  assumes Q: "\<And>sev msg rest. Q (issue sev msg (Some (mp @ ''.value.'' @ rest)))"
  shows "truthy v \<Longrightarrow> typeof v = ''object'' \<Longrightarrow> list_all Q t \<Longrightarrow>
   agree Q s (msgUniversalUpdateCollectionCheck v mp (s @ t)) (msgUniversalUpdateCollectionCheck v mp t)"
  unfolding msgUniversalUpdateCollectionCheck_def Let_def
  using Q
  apply (simp add: case_JArray_if split del: if_split)
  apply ((rule conjI impI agree_if agree_bind universalCreatorCheck_agree validateApprovals_agree
            subscriptionTokenIdsCheck_agree validateTokenMetadata_agree validatePermissions_agree
          | simp add: case_JArray_if split del: if_split | simp)+)
  done

lemma messageCheck_agree:
  assumes Q: "\<And>sev msg rest. Q (issue sev msg (Some (''messages['' @ showNat j @ '']'' @ rest)))"
  shows "list_all Q t \<Longrightarrow> agree Q s (messageCheck m j (s @ t)) (messageCheck m j t)"
  unfolding messageCheck_def Let_def
  using Q Q [of _ _ "[]"]
  apply (simp split del: if_split)
  apply ((rule conjI impI agree_if agree_bind msgUniversalUpdateCollectionCheck_agree
            msgTransferTokensCheck_agree
          | simp split del: if_split | simp)+)
  done

subsection \<open>The issues of the result, rule by rule\<close>

lemma forEachFrom_concat:
  assumes "\<And>k st. k < length xs \<Longrightarrow> f (xs ! k) (i + k) st = Some (st @ n k)"
  shows "forEachFrom f xs i st = Some (st @ concat (map n [0..<length xs]))"
  using assms
proof (induction xs arbitrary: i n st)
  case Nil
  then show ?case by simp
next
  case (Cons x xs)
  have x: "f x i st = Some (st @ n 0)"
    using Cons.prems [of 0 st] by simp
  have "forEachFrom f xs (Suc i) (st @ n 0) =
          Some ((st @ n 0) @ concat (map (n \<circ> Suc) [0..<length xs]))"
  proof (rule Cons.IH)
    fix k st'
    assume "k < length xs"
    then show "f (xs ! k) (Suc i + k) st' = Some (st' @ (n \<circ> Suc) k)"
      using Cons.prems [of "Suc k" st'] by simp
  qed
  moreover have "map n [0..<length (x # xs)] = n 0 # map (n \<circ> Suc) [0..<length xs]"
    by (simp add: map_upt_Suc del: upt_Suc)
  ultimately show ?case using x by simp
qed

lemma messageCheck_the:
  "messageCheck m j st = Some (st @ the (messageCheck m j []))"
proof -
  have "agree (\<lambda>i. True) st (messageCheck m j (st @ [])) (messageCheck m j [])"
    by (rule messageCheck_agree) simp_all
  then show ?thesis using agree_the(1) by fastforce
qed

lemma messagesArray_object:
  assumes "messagesArray tx = Some msgs"
  shows "truthy tx" and "typeof tx = ''object''" and "getProp tx ''messages'' = Some (JArray msgs)"
  using assms by (auto simp: messagesArray_def split: jsval.splits option.splits)

text \<open>
  On a document with a message array that nests no deeper than the stack has room for,
  the result lists what the walk for numbers records, then what the walk for ranges
  records, then what the check of each message records, each as recorded on its own.
\<close>

lemma handleValidateTransaction_parts:
  assumes p: "parse s = Inr tx" and ms: "messagesArray tx = Some msgs" and n: "nesting tx \<le> room"
  shows "\<exists>ns rs.
           checkNumbersAreStrings room numToString tx [] [] = Some ns
         \<and> findAndValidateUintRanges room tx [] [] = Some rs
         \<and> handleValidateTransaction room parse numToString s =
             Some \<lparr>valid = (\<forall>i \<in> set (ns @ rs
                                @ concat (map (\<lambda>j. the (messageCheck (msgs ! j) j [])) [0..<length msgs])).
                              severity i \<noteq> SevError),
                   issues = ns @ rs
                     @ concat (map (\<lambda>j. the (messageCheck (msgs ! j) j [])) [0..<length msgs])\<rparr>"
proof -
  note tx = messagesArray_object [OF ms]
  have "agree (\<lambda>i. True) [] (checkNumbersAreStrings room numToString tx [] ([] @ []))
          (checkNumbersAreStrings room numToString tx [] [])"
    using n by (intro checkNumbersAreStrings_agree(1)) simp_all
  then obtain ns where ns: "checkNumbersAreStrings room numToString tx [] [] = Some ns"
    by (auto elim: agreeE)
  have "agree (\<lambda>i. True) ns (findAndValidateUintRanges room tx [] (ns @ []))
          (findAndValidateUintRanges room tx [] [])"
    using n by (intro findAndValidateUintRanges_agree(1)) simp_all
  then obtain rs where rs: "findAndValidateUintRanges room tx [] [] = Some rs"
      "findAndValidateUintRanges room tx [] ns = Some (ns @ rs)"
    by (auto elim: agreeE)
  let ?mss = "concat (map (\<lambda>j. the (messageCheck (msgs ! j) j [])) [0..<length msgs])"
  have m: "forEach messageCheck msgs (ns @ rs) = Some ((ns @ rs) @ ?mss)"
    unfolding forEach_def
    by (rule forEachFrom_concat) (simp add: messageCheck_the [symmetric])
  have "handleValidateTransaction room parse numToString s =
          Some \<lparr>valid = (length (filter (\<lambda>i. severity i = SevError) (ns @ rs @ ?mss)) = 0),
                issues = ns @ rs @ ?mss\<rparr>"
    using p tx ns rs(2) m by (simp add: handleValidateTransaction_def)
  moreover have "(length (filter (\<lambda>i. severity i = SevError) (ns @ rs @ ?mss)) = 0)
                   = (\<forall>i \<in> set (ns @ rs @ ?mss). severity i \<noteq> SevError)"
    by (simp only: length_0_conv filter_empty_conv)
  ultimately show ?thesis using ns rs(1) by simp
qed

lemma handleValidateTransaction_overflow:
  assumes "parse s = Inr tx" and "messagesArray tx = Some msgs" and "room < nesting tx"
  shows "handleValidateTransaction room parse numToString s = None"
  using assms messagesArray_object [OF assms(2)]
  by (simp add: handleValidateTransaction_def checkNumbersAreStrings_overflow(1))

lemma messagesArray_deepDocument: "messagesArray (deepDocument n) = Some (elems (nestedArrays n))"
  by (cases n) (simp_all add: messagesArray_def deepDocument_def elems_def)

subsection \<open>The validator returns unless the stack is exhausted, and \<open>valid\<close> means no error\<close>

lemma handleValidateTransaction_no_messages:
  assumes "parse s = Inr tx" and "messagesArray tx = None"
  shows "handleValidateTransaction room parse numToString s =
           Some \<lparr>valid = False, issues = [issue SevError ''Transaction must be a JSON object'' None]\<rparr>
       \<or> handleValidateTransaction room parse numToString s =
           Some \<lparr>valid = False,
                 issues = [issue SevError (''Transaction must have a '' @ dq @ ''messages'' @ dq @ '' array'')
                             (Some ''messages'')]\<rparr>"
proof (cases tx)
  case (JObject kvs)
  then have "\<not> isArray (propOf tx ''messages'')"
    using assms(2)
    by (auto simp: messagesArray_def propOf_def split: option.splits jsval.splits)
  then show ?thesis using assms(1) JObject
    by (cases "propOf tx ''messages''") (auto simp: handleValidateTransaction_def propOf_def)
qed (use assms(1) in \<open>auto simp: handleValidateTransaction_def\<close>)

text \<open>
  C2, as amended. Take any input string and suppose that, if it parses to an object with a
  message array, the parsed value nests no deeper than the call stack has room for. Then
  \<open>handleValidateTransaction\<close> returns a result (it is not \<open>None\<close>, the uncaught
  exception). If \<open>JSON.parse\<close> throws, the result has \<open>valid = false\<close> and exactly one issue,
  of severity error. If the string parses to an object with a message array, the issues of
  the result are everything the rules record: what the walk for numbers records on the
  document, then what the walk for ranges records, then what the check of each message
  records, in the order of the messages. In every case \<open>valid\<close> holds if and only if no
  issue has severity error.
\<close>

theorem handleValidateTransaction_returns:
  assumes "\<forall>tx msgs. parse s = Inr tx \<longrightarrow> messagesArray tx = Some msgs \<longrightarrow> nesting tx \<le> room"
  shows "\<exists>r. handleValidateTransaction room parse numToString s = Some r
       \<and> (valid r \<longleftrightarrow> (\<forall>i \<in> set (issues r). severity i \<noteq> SevError))
       \<and> (\<forall>err. parse s = Inl err \<longrightarrow>
             \<not> valid r \<and> (\<exists>i. issues r = [i] \<and> severity i = SevError))
       \<and> (\<forall>tx msgs. parse s = Inr tx \<longrightarrow> messagesArray tx = Some msgs \<longrightarrow>
             (\<exists>ns rs mss.
                 checkNumbersAreStrings room numToString tx [] [] = Some ns
               \<and> findAndValidateUintRanges room tx [] [] = Some rs
               \<and> length mss = length msgs
               \<and> (\<forall>j < length msgs. messageCheck (msgs ! j) j [] = Some (mss ! j))
               \<and> issues r = ns @ rs @ concat mss))"
proof (cases "parse s")
  case (Inl err)
  then show ?thesis by (simp add: handleValidateTransaction_def issue_def)
next
  case (Inr tx)
  show ?thesis
  proof (cases "messagesArray tx")
    case None
    show ?thesis
      using handleValidateTransaction_no_messages
              [where parse = parse and s = s and tx = tx and room = room and numToString = numToString,
               OF Inr None] Inr None
      by (auto simp: issue_def)
  next
    case (Some msgs)
    have n: "nesting tx \<le> room" using assms Inr Some by simp
    let ?mss = "map (\<lambda>j. the (messageCheck (msgs ! j) j [])) [0..<length msgs]"
    obtain ns rs where parts:
        "checkNumbersAreStrings room numToString tx [] [] = Some ns"
        "findAndValidateUintRanges room tx [] [] = Some rs"
        "handleValidateTransaction room parse numToString s =
           Some \<lparr>valid = (\<forall>i \<in> set (ns @ rs @ concat ?mss). severity i \<noteq> SevError),
                 issues = ns @ rs @ concat ?mss\<rparr>"
      using handleValidateTransaction_parts
              [where parse = parse and s = s and tx = tx and numToString = numToString, OF Inr Some n]
      by blast
    have each: "\<forall>j < length msgs. messageCheck (msgs ! j) j [] = Some (?mss ! j)"
      using messageCheck_the [of _ _ "[]"] by simp
    have "\<exists>mss. length mss = length msgs
           \<and> (\<forall>j < length msgs. messageCheck (msgs ! j) j [] = Some (mss ! j))
           \<and> concat ?mss = concat mss"
      using each by (intro exI [of _ ?mss]) simp
    then show ?thesis using parts Inr Some by simp
  qed
qed

theorem handleValidateTransaction_returns_witness:
  "(\<exists>r. handleValidateTransaction 10 (\<lambda>s. Inl ''Unexpected end of JSON input'') (\<lambda>n. ''0'') ''{'' = Some r
        \<and> \<not> valid r \<and> (\<exists>i. issues r = [i] \<and> severity i = SevError))
   \<and> (\<exists>r. handleValidateTransaction 10 (\<lambda>s. Inr (JObject [(''messages'', JArray [])])) (\<lambda>n. ''0'') ''{}'' = Some r
        \<and> valid r \<and> issues r = [])
   \<and> nesting exampleTransaction = 5
   \<and> (\<exists>r. handleValidateTransaction 10 (\<lambda>s. Inr exampleTransaction) (\<lambda>n. ''5'') exampleTransactionJson = Some r
        \<and> \<not> valid r \<and> length (issues r) = 1)"
proof -
  have a: "handleValidateTransaction 10 (\<lambda>s. Inl ''Unexpected end of JSON input'') (\<lambda>n. ''0'') ''{'' =
             Some \<lparr>valid = False,
                   issues = [issue SevError ''Invalid JSON: Unexpected end of JSON input'' None]\<rparr>"
    by (simp add: handleValidateTransaction_def)
  have b: "handleValidateTransaction 10 (\<lambda>s. Inr (JObject [(''messages'', JArray [])])) (\<lambda>n. ''0'') ''{}'' =
             Some \<lparr>valid = True, issues = []\<rparr>"
    by (simp add: handleValidateTransaction_def forEach_def checkUintRangeFormat_def eval_nat_numeral)
  have c: "\<exists>i. handleValidateTransaction 10 (\<lambda>s. Inr exampleTransaction) (\<lambda>n. ''5'') exampleTransactionJson =
             Some \<lparr>valid = False, issues = [i]\<rparr>"
    by (simp add: handleValidateTransaction_def forEach_def checkUintRangeFormat_def messageCheck_def
          exampleTransaction_def eval_nat_numeral issue_def)
  show ?thesis
    using handleValidateTransaction_returns [of "\<lambda>s. Inl ''Unexpected end of JSON input''" "''{''" 10 "\<lambda>n. ''0''"]
          handleValidateTransaction_returns [of "\<lambda>s. Inr (JObject [(''messages'', JArray [])])" "''{}''" 10 "\<lambda>n. ''0''"]
          handleValidateTransaction_returns [of "\<lambda>s. Inr exampleTransaction" exampleTransactionJson 10 "\<lambda>n. ''5''"]
          a b c
    by (auto simp: issue_def exampleTransaction_def)
qed

text \<open>
  The claim as first stated fails: the text \<open>{"messages":[[...[]...]]}\<close> with 10001 pairs
  of brackets is valid JSON, and on a stack with room for 10000 nested calls the walk for
  numbers exhausts the stack, outside the \<open>try\<close> block.
\<close>

theorem deep_nesting_throws:
  "handleValidateTransaction 10000 (deepDocumentParse 10000) printZero (deepDocumentJson 10000) = None"
proof (rule handleValidateTransaction_overflow)
  show "deepDocumentParse 10000 (deepDocumentJson 10000) = Inr (deepDocument 10000)"
    by (simp add: deepDocumentParse_def)
  show "messagesArray (deepDocument 10000) = Some (elems (nestedArrays 10000))"
    by (rule messagesArray_deepDocument)
  show "10000 < nesting (deepDocument 10000)"
    by (simp add: deepDocument_def)
qed

subsection \<open>The example of the specification\<close>

text \<open>
  C3. On the input \<open>{"messages":[{"typeUrl":"T","value":{"amount":5}}]}\<close>, which
  \<open>JSON.parse\<close> turns into the value \<open>exampleTransaction\<close>, the validator returns
  \<open>valid = false\<close> and exactly one issue; it has severity error and its path, written
  from the root with a leading dot, is \<open>.messages[0].value.amount\<close>. The document nests five
  values, for which any stack has room.
\<close>

theorem example_one_error:
  assumes "parse exampleTransactionJson = Inr exampleTransaction" and "5 \<le> room"
  shows "handleValidateTransaction room parse numToString exampleTransactionJson =
           Some \<lparr>valid = False,
                 issues = [\<lparr>severity = SevError,
                            message = ''Number value found where string expected. Use '' @ dq
                              @ numToString (Finite 5) @ dq @ '' instead of '' @ numToString (Finite 5),
                            path = Some ''.messages[0].value.amount''\<rparr>]\<rparr>"
proof -
  obtain r where "room = 5 + r"
    using assms(2) le_Suc_ex by blast
  then have "room = Suc (Suc (Suc (Suc (Suc r))))"
    by simp
  then show ?thesis
    using assms(1)
    by (simp add: handleValidateTransaction_def exampleTransaction_def forEach_def messageCheck_def
          checkUintRangeFormat_def showNat.simps digitChar_def issue_def)
qed

theorem example_one_error_witness:
  "handleValidateTransaction 5
     (\<lambda>s. if s = exampleTransactionJson then Inr exampleTransaction else Inl ''Unexpected token'')
     (\<lambda>n. ''5'') exampleTransactionJson =
   Some \<lparr>valid = False,
         issues = [\<lparr>severity = SevError,
                    message = ''Number value found where string expected. Use '' @ dq @ ''5'' @ dq
                      @ '' instead of 5'',
                    path = Some ''.messages[0].value.amount''\<rparr>]\<rparr>"
  using example_one_error
    [of "\<lambda>s. if s = exampleTransactionJson then Inr exampleTransaction else Inl ''Unexpected token''"
        5 "\<lambda>n. ''5''"]
  by simp

subsection \<open>The order-calculation selector\<close>



subsection \<open>List identifiers\<close>

text \<open>
  C9. Every string that starts with \<open>bb1\<close> or with \<open>!bb1\<close> is accepted by \<open>isValidListId\<close>,
  whatever follows: the two prefix tests come before the colon-joined forms, whose
  test of every segment is therefore never reached for such a string. The witness is
  \<open>bb1abc:notanaddress\<close>, accepted although its second segment is no address.
\<close>

theorem isValidListId_bb1_prefix:
  "startsWith s ''bb1'' \<or> startsWith s ''!bb1'' \<Longrightarrow> isValidListId s"
  by (auto simp: isValidListId_def)

theorem isValidListId_bb1_prefix_witness:
  "startsWith ''bb1abc:notanaddress'' ''bb1''
   \<and> isValidListId ''bb1abc:notanaddress''
   \<and> splitOn CHR '':'' ''bb1abc:notanaddress'' = [''bb1abc'', ''notanaddress'']
   \<and> \<not> list_all (\<lambda>part. startsWith part ''bb1'') (splitOn CHR '':'' ''bb1abc:notanaddress'')"
  using isValidListId_bb1_prefix [of "''bb1abc:notanaddress''"]
  by (simp add: startsWith_def)

subsection \<open>Documents without a message array\<close>

text \<open>
  C10. If the input parses to a value that is not an object, or to an object whose
  \<open>messages\<close> is missing or not an array, the result is \<open>valid = false\<close> with exactly one
  issue, of severity error: one of two fixed issues, whatever else the document holds.
  No other rule is applied.
\<close>

theorem no_messages_array_one_error:
  assumes "parse s = Inr tx" and "messagesArray tx = None"
  shows "handleValidateTransaction room parse numToString s =
           Some \<lparr>valid = False,
                 issues = [\<lparr>severity = SevError, message = ''Transaction must be a JSON object'',
                            path = None\<rparr>]\<rparr>
       \<or> handleValidateTransaction room parse numToString s =
           Some \<lparr>valid = False,
                 issues = [\<lparr>severity = SevError,
                            message = ''Transaction must have a '' @ dq @ ''messages'' @ dq @ '' array'',
                            path = Some ''messages''\<rparr>]\<rparr>"
  using handleValidateTransaction_no_messages
          [where parse = parse and s = s and tx = tx and room = room and numToString = numToString,
           OF assms]
  by (simp add: issue_def)

theorem no_messages_array_one_error_witness:
  "handleValidateTransaction 0
     (\<lambda>s. Inr (JObject [(''messages'', JString ''none''), (''amount'', JNumber (Finite 5)),
                         (''range'', JObject [(''start'', JNumber (Finite 1))]),
                         (''fromListId'', JString ''notAList'')]))
     (\<lambda>n. ''5'') ''doc'' =
     Some \<lparr>valid = False,
           issues = [\<lparr>severity = SevError,
                      message = ''Transaction must have a '' @ dq @ ''messages'' @ dq @ '' array'',
                      path = Some ''messages''\<rparr>]\<rparr>
   \<and> handleValidateTransaction 0 (\<lambda>s. Inr (JNumber (Finite 5))) (\<lambda>n. ''5'') ''5'' =
     Some \<lparr>valid = False,
           issues = [\<lparr>severity = SevError, message = ''Transaction must be a JSON object'',
                      path = None\<rparr>]\<rparr>"
  using no_messages_array_one_error
          [of "\<lambda>s. Inr (JObject [(''messages'', JString ''none''), (''amount'', JNumber (Finite 5)),
                         (''range'', JObject [(''start'', JNumber (Finite 1))]),
                         (''fromListId'', JString ''notAList'')])" "''doc''" _ 0 "\<lambda>n. ''5''"]
        no_messages_array_one_error [of "\<lambda>s. Inr (JNumber (Finite 5))" "''5''" _ 0 "\<lambda>n. ''5''"]
  by (simp add: messagesArray_def dq_def handleValidateTransaction_def issue_def)

subsection \<open>A mint approval must override the sender's approvals\<close>

lemma reaches_Some [simp]: "reaches x (Some r) = (x \<in> set r)"
  by (simp add: reaches_def)

lemma reaches_None [simp]: "\<not> reaches x None"
  by (simp add: reaches_def)













subsection \<open>Steps that add no error\<close>

lemma sameErrors_Some [simp]: "sameErrors s0 (Some r) = (filter isError r = filter isError s0)"
  by (simp add: sameErrors_def)

lemma sameErrors_None [simp]: "\<not> sameErrors s0 None"
  by (simp add: sameErrors_def)



lemma isError_issue [simp]: "isError (issue sev msg p) = (sev = SevError)"
  by (simp add: isError_def issue_def)













subsection \<open>The alias of an external asset is derived from two keys\<close>

text \<open>
  C1, as amended. For every denomination \<open>d\<close> the derivation uses two keys, the single
  byte \<open>0x12\<close> and the UTF-8 bytes of \<open>d\<close>. The seed is
  \<open>H("module", "tokenization" || 0x00 || 0x12)\<close> and one \<open>Derive\<close> step folds \<open>d\<close> in: the
  digest is \<open>H(seed, d)\<close>, returned in hexadecimal.
\<close>

theorem ibc_alias_digest_two_keys:
  "getAliasDerivationKeysForIBCBackedDenom d = [[CHR 0x12], d]
   \<and> Module lib ''tokenization'' (getAliasDerivationKeysForIBCBackedDenom d) =
       Inr (toHex (H lib (H lib ''module'' (''tokenization'' @ [CHR 0x00] @ [CHR 0x12])) d))"
  by (simp add: getAliasDerivationKeysForIBCBackedDenom_def BackedPathGenerationPrefix_def
        Module_def Derive_def Hash_def H_def Let_def)

subsection \<open>Conversion to the 0x format fails where it must\<close>

text \<open>
  C7. \<open>toEthAddress\<close> fails with an error when the text starts neither with \<open>0x\<close> nor with
  \<open>bb1\<close>, so that its format is unknown. The conversion of a Bech32 address,
  \<open>cosmosToEth\<close>, fails with an error for every input whose decoded payload is not 20
  bytes long (a 32-byte module address, for one), and so does \<open>toEthAddress\<close> where it
  converts, that is for a text that does not start with \<open>0x\<close>. No text is returned in
  these cases.
\<close>

theorem toEthAddress_fails:
  "(\<not> startsWith a ''0x'' \<longrightarrow> \<not> startsWith a ''bb1'' \<longrightarrow>
      toEthAddress lib a = Inl (Error ''Unknown address format''))
   \<and> (decode lib a = Inr (hrp, ws) \<longrightarrow> fromWords lib ws = Inr bs \<longrightarrow> length bs \<noteq> 20 \<longrightarrow>
        (\<exists>e. cosmosToEth lib a = Inl e)
        \<and> (\<not> startsWith a ''0x'' \<longrightarrow> (\<exists>e. toEthAddress lib a = Inl e)))"
  by (auto simp: toEthAddress_def cosmosToEth_def BITBADGES_PREFIX_def)

subsection \<open>Looking up an unknown external asset\<close>

lemma registerCoin_preseeded:
  assumes "\<forall>e \<in> set m. ibcDenom (snd e) \<in> set (map fst MAINNET_COINS_REGISTRY)"
      and "c \<in> set MAINNET_COINS_REGISTRY"
  shows "\<forall>e \<in> set (registerCoin lib m c). ibcDenom (snd e) \<in> set (map fst MAINNET_COINS_REGISTRY)"
proof -
  obtain k cd where c: "c = (k, cd)" by (cases c)
  have "k \<in> set (map fst MAINNET_COINS_REGISTRY)"
    using assms(2) c by force
  then show ?thesis
    using assms(1) by (auto simp: registerCoin_def c Let_def split: sum.splits)
qed

lemma foldl_registerCoin_preseeded:
  assumes "\<forall>e \<in> set m. ibcDenom (snd e) \<in> set (map fst MAINNET_COINS_REGISTRY)"
      and "set cs \<subseteq> set MAINNET_COINS_REGISTRY"
  shows "\<forall>e \<in> set (foldl (registerCoin lib) m cs). ibcDenom (snd e) \<in> set (map fst MAINNET_COINS_REGISTRY)"
  using assms
proof (induction cs arbitrary: m)
  case Nil
  then show ?case by simp
next
  case (Cons c cs)
  have c: "c \<in> set MAINNET_COINS_REGISTRY" and cs: "set cs \<subseteq> set MAINNET_COINS_REGISTRY"
    using Cons.prems(2) by simp_all
  have "\<forall>e \<in> set (registerCoin lib m c). ibcDenom (snd e) \<in> set (map fst MAINNET_COINS_REGISTRY)"
    by (rule registerCoin_preseeded [OF Cons.prems(1) c])
  then have "\<forall>e \<in> set (foldl (registerCoin lib) (registerCoin lib m c) cs).
               ibcDenom (snd e) \<in> set (map fst MAINNET_COINS_REGISTRY)"
    using cs by (rule Cons.IH)
  then show ?case by simp
qed

text \<open>
  C8. Let the query match no symbol and no canonical identifier of the table, start
  with \<open>ibc/\<close>, and let the address deriver return an address for it. Then the lookup
  returns the descriptor with symbol \<open>UNKNOWN\<close>, exponent \<open>6\<close>, label \<open>Unknown IBC Token\<close>
  and that address, and the state it leaves is the one that building the table leaves:
  a table already built is unchanged, and the descriptor is not stored. The table that
  is built holds pre-seeded identifiers only.
\<close>

theorem lookupTokenInfo_unknown_ibc:
  assumes "buildSymbolToTokenInfoMap lib cache = (tokenMap, cache')"
      and "map_of tokenMap (toUpperCase lib query) = None"
      and "\<forall>t \<in> set (map snd tokenMap). toLowerCase lib (ibcDenom t) \<noteq> toLowerCase lib query"
      and "startsWith query ''ibc/''"
      and "generateAliasAddressForIBCBackedDenom lib query = Inr address"
  shows "lookupTokenInfo lib query cache =
           (Some \<lparr>tokenSymbol = ''UNKNOWN'', ibcDenom = query, tokenDecimals = ''6'',
                   backingAddress = address, displayName = ''Unknown IBC Token''\<rparr>, cache')
       \<and> cache' = Some tokenMap
       \<and> (cache \<noteq> None \<longrightarrow> cache' = cache)
       \<and> (cache = None \<longrightarrow>
            (\<forall>e \<in> set tokenMap. ibcDenom (snd e) \<in> set (map fst MAINNET_COINS_REGISTRY)))"
proof -
  have nf: "find (\<lambda>t. toLowerCase lib (ibcDenom t) = toLowerCase lib query) (map snd tokenMap) = None"
    using assms(3) by (simp add: find_None_iff)
  have look: "lookupTokenInfo lib query cache =
           (Some \<lparr>tokenSymbol = ''UNKNOWN'', ibcDenom = query, tokenDecimals = ''6'',
                   backingAddress = address, displayName = ''Unknown IBC Token''\<rparr>, cache')"
    using assms(1,2,4,5) nf by (simp add: lookupTokenInfo_def Let_def)
  have st: "cache' = Some tokenMap" and same: "cache \<noteq> None \<longrightarrow> cache' = cache"
    using assms(1) by (auto simp: buildSymbolToTokenInfoMap_def Let_def split: option.splits)
  have pre: "cache = None \<longrightarrow>
            (\<forall>e \<in> set tokenMap. ibcDenom (snd e) \<in> set (map fst MAINNET_COINS_REGISTRY))"
  proof
    assume "cache = None"
    then have "tokenMap = foldl (registerCoin lib) [] MAINNET_COINS_REGISTRY"
      using assms(1) by (simp add: buildSymbolToTokenInfoMap_def Let_def)
    then show "\<forall>e \<in> set tokenMap. ibcDenom (snd e) \<in> set (map fst MAINNET_COINS_REGISTRY)"
      using foldl_registerCoin_preseeded [of "[]" MAINNET_COINS_REGISTRY lib] by simp
  qed
  show ?thesis using look st same pre by blast
qed

subsection \<open>Round trips between the two address formats\<close>


subsection \<open>The reference platform at concrete inputs\<close>

lemma module_ibc_x:
  "Module referencePlatform ''tokenization'' (getAliasDerivationKeysForIBCBackedDenom ''ibc/x'') =
     Inr ''e1748be00e5bc01e43c41d7beffd22aea277b68d71cda931310c30cdbfc6cd9b''"
  by code_simp

lemma single_key_ibc_x:
  "toHex (H referencePlatform ''module'' (''tokenization'' @ [CHR 0x00] @ [CHR 0x12] @ ''ibc/x'')) =
     ''458b471c0323c5df59cc3e9ba209c4dbaa6e369a69242fd158077420c0104b87''"
  by code_simp

lemma encode_ibc_x:
  "encode referencePlatform ''bb''
     (toWords referencePlatform
        (fromHex ''e1748be00e5bc01e43c41d7beffd22aea277b68d71cda931310c30cdbfc6cd9b'')) =
     Inr ''bb1u96ghcqwt0qpus7yr4a7llfz46380d5dw8x6jvf3pscvm07xekdsea5nf4''"
  by code_simp

lemma generate_ibc_x:
  "generateAliasAddressForIBCBackedDenom referencePlatform ''ibc/x'' =
     Inr ''bb1u96ghcqwt0qpus7yr4a7llfz46380d5dw8x6jvf3pscvm07xekdsea5nf4''"
  unfolding generateAliasAddressForIBCBackedDenom_def generateAlias_def
  by (simp only: module_ibc_x sum.case encode_ibc_x)








lemma cosmos_decode: "decode referencePlatform cosmosBech32Address = Inr (''cosmos'', exampleWords)"
  by code_simp

lemma module_decode:
  "decode referencePlatform moduleBech32Address = Inr (''bb'', toWords referencePlatform moduleBytes)"
  by code_simp

lemma module_fromWords:
  "fromWords referencePlatform (toWords referencePlatform moduleBytes) = Inr moduleBytes
   \<and> length moduleBytes = 32"
  by code_simp

lemma example_toHex: "toHex exampleBytes = ''0102030405060708090a0b0c0d0e0f1011121314''"
  by code_simp

lemma example_prefixes:
  "startsWith exampleEthAddress ''0x'' \<and> startsWith exampleBech32Address ''bb1''
   \<and> \<not> startsWith cosmosBech32Address ''0x'' \<and> \<not> startsWith cosmosBech32Address ''bb1''
   \<and> \<not> startsWith moduleBech32Address ''0x''"
  by code_simp





lemma example_no_symbol:
  "map_of exampleTokenMap (toUpperCase referencePlatform ''ibc/x'') = None"
  by code_simp

lemma example_no_denom:
  "list_all (\<lambda>t. toLowerCase referencePlatform (ibcDenom t) \<noteq> toLowerCase referencePlatform ''ibc/x'')
     (map snd exampleTokenMap)"
  by code_simp

subsection \<open>The claims at concrete inputs\<close>

text \<open>
  C1 as it was stated fails at \<open>d = ibc/x\<close>: the keys are two, not the one key
  \<open>0x12 || d\<close>, and the digest that \<open>Module\<close> returns is not
  \<open>H("module", "tokenization" || 0x00 || 0x12 || d)\<close>.
\<close>

theorem ibc_alias_single_key_counterexample:
  "getAliasDerivationKeysForIBCBackedDenom ''ibc/x'' \<noteq> [CHR 0x12 # ''ibc/x'']
   \<and> Module referencePlatform ''tokenization'' (getAliasDerivationKeysForIBCBackedDenom ''ibc/x'')
       \<noteq> Inr (toHex (H referencePlatform ''module''
                 (''tokenization'' @ [CHR 0x00] @ [CHR 0x12] @ ''ibc/x'')))"
  unfolding module_ibc_x single_key_ibc_x
  by (simp add: getAliasDerivationKeysForIBCBackedDenom_def)

theorem toEthAddress_fails_witness:
  "toEthAddress referencePlatform cosmosBech32Address = Inl (Error ''Unknown address format'')
   \<and> (\<exists>e. cosmosToEth referencePlatform moduleBech32Address = Inl e)
   \<and> (\<exists>e. toEthAddress referencePlatform moduleBech32Address = Inl e)"
  using toEthAddress_fails [where a = cosmosBech32Address and lib = referencePlatform]
        toEthAddress_fails [where a = moduleBech32Address and lib = referencePlatform
          and hrp = "''bb''" and ws = "toWords referencePlatform moduleBytes" and bs = moduleBytes]
        module_decode module_fromWords example_prefixes
  by simp

theorem lookupTokenInfo_unknown_ibc_witness:
  "lookupTokenInfo referencePlatform ''ibc/x'' (Some exampleTokenMap) =
     (Some \<lparr>tokenSymbol = ''UNKNOWN'', ibcDenom = ''ibc/x'', tokenDecimals = ''6'',
             backingAddress = ''bb1u96ghcqwt0qpus7yr4a7llfz46380d5dw8x6jvf3pscvm07xekdsea5nf4'',
             displayName = ''Unknown IBC Token''\<rparr>,
      Some exampleTokenMap)"
proof -
  have build: "buildSymbolToTokenInfoMap referencePlatform (Some exampleTokenMap) =
                 (exampleTokenMap, Some exampleTokenMap)"
    by (simp add: buildSymbolToTokenInfoMap_def)
  have nodenom: "\<forall>t \<in> set (map snd exampleTokenMap).
      toLowerCase referencePlatform (ibcDenom t) \<noteq> toLowerCase referencePlatform ''ibc/x''"
    using example_no_denom unfolding list_all_iff .
  have ibc: "startsWith ''ibc/x'' ''ibc/''" by (simp add: startsWith_def)
  show ?thesis
    using lookupTokenInfo_unknown_ibc [OF build example_no_symbol nodenom ibc generate_ibc_x]
    by simp
qed



end
